theory Spec2Isabelle
  imports Main "HOL-Library.Product_Lexorder" "HOL-Library.Code_Target_Nat"
begin

section \<open>Values, strings and the hearing record\<close>

text \<open>
  The engine of \<^verbatim>\<open>excel_utils.py\<close> keeps hearing records in the rows of a worksheet.
  A cell value and a field of a record are Python values: \<^verbatim>\<open>None\<close>, a string or an
  integer (the row counter written in column A); floats, booleans and containers are
  outside the model. A Python string is the list of its code points; \<open>tx\<close> turns an
  ASCII literal into such a list. Paths and the names of the keys stay byte strings: the
  code only looks at their ASCII characters.
\<close>

type_synonym texto = "nat list"

definition tx :: "string \<Rightarrow> texto" where
  "tx s = map of_char s"

datatype valor = Vacio | Texto texto | Entero int

text \<open>Python truthiness, as used by \<^verbatim>\<open>not d.get(campo)\<close> and \<^verbatim>\<open>while cell.value\<close>.\<close>

fun truthy :: "valor \<Rightarrow> bool" where
  "truthy Vacio = False"
| "truthy (Texto s) = (s \<noteq> [])"
| "truthy (Entero i) = (i \<noteq> 0)"

text \<open>The decimal digits of a natural number, and \<^verbatim>\<open>str\<close> of an integer.\<close>

fun digitos :: "nat \<Rightarrow> string" where
  "digitos n = (if n < 10 then [''0123456789'' ! n]
                else digitos (n div 10) @ [''0123456789'' ! (n mod 10)])"

declare digitos.simps [simp del]

definition str_nat :: "nat \<Rightarrow> texto" where
  "str_nat n = tx (digitos n)"

definition str_int :: "int \<Rightarrow> texto" where
  "str_int i = (if i < 0 then 45 # str_nat (nat (- i)) else str_nat (nat i))"

fun py_str :: "valor \<Rightarrow> texto" where
  "py_str Vacio = tx ''None''"
| "py_str (Texto s) = s"
| "py_str (Entero i) = str_int i"

text \<open>
  The white space of \<^verbatim>\<open>str.strip\<close>, \<^verbatim>\<open>str.isspace\<close> and the \<^verbatim>\<open>\s\<close> of a regular
  expression: the characters that the interpreter takes as white space, which are the
  ASCII ones (the four separators U+001C to U+001F included) and the Unicode spaces.
\<close>

definition isspace :: "nat \<Rightarrow> bool" where
  "isspace c =
     ((0x09 \<le> c \<and> c \<le> 0x0D) \<or> (0x1C \<le> c \<and> c \<le> 0x20) \<or> c = 0x85 \<or> c = 0xA0
      \<or> c = 0x1680 \<or> (0x2000 \<le> c \<and> c \<le> 0x200A) \<or> c = 0x2028 \<or> c = 0x2029
      \<or> c = 0x202F \<or> c = 0x205F \<or> c = 0x3000)"

definition strip :: "texto \<Rightarrow> texto" where
  "strip s = rev (dropWhile isspace (rev (dropWhile isspace s)))"

text \<open>
  \<^verbatim>\<open>str.upper\<close> maps every character to its upper case, which may be more than one
  character. The table below is exact on every character whose upper case has an ASCII
  character in it: the letters a to z, the dotless i (U+0131) and the long s (U+017F),
  whose upper cases are \<^verbatim>\<open>I\<close> and \<^verbatim>\<open>S\<close>, and the characters whose upper case is a
  letter followed by another letter or a mark (the sharp s, the ligatures, and a few
  letters with a mark). Any other character stands for its upper case, which has no ASCII
  character in it; the code compares the result with \<^verbatim>\<open>SI\<close> and \<^verbatim>\<open>NO\<close> only, so
  that the comparison has the outcome it has in the interpreter.
\<close>

definition upper_char :: "nat \<Rightarrow> texto" where
  "upper_char c =
     (if 0x61 \<le> c \<and> c \<le> 0x7A then [c - 0x20]
      else if c = 0x131 then tx ''I''
      else if c = 0x17F then tx ''S''
      else if c = 0xDF then tx ''SS''
      else if c = 0x149 then [0x2BC, 0x4E]
      else if c = 0x1F0 then [0x4A, 0x30C]
      else if c = 0x1E96 then [0x48, 0x331]
      else if c = 0x1E97 then [0x54, 0x308]
      else if c = 0x1E98 then [0x57, 0x30A]
      else if c = 0x1E99 then [0x59, 0x30A]
      else if c = 0x1E9A then [0x41, 0x2BE]
      else if c = 0xFB00 then tx ''FF''
      else if c = 0xFB01 then tx ''FI''
      else if c = 0xFB02 then tx ''FL''
      else if c = 0xFB03 then tx ''FFI''
      else if c = 0xFB04 then tx ''FFL''
      else if c = 0xFB05 \<or> c = 0xFB06 then tx ''ST''
      else [c])"

definition upper :: "texto \<Rightarrow> texto" where
  "upper s = concat (map upper_char s)"

definition startswith :: "'a list \<Rightarrow> 'a list \<Rightarrow> bool" where
  "startswith s p = (take (length p) s = p)"

definition endswith :: "'a list \<Rightarrow> 'a list \<Rightarrow> bool" where
  "endswith s p = (length p \<le> length s \<and> drop (length s - length p) s = p)"

text \<open>
  A hearing is a \<^verbatim>\<open>Dict[str, Any]\<close> restricted to its eight keys. A scalar field is
  \<open>None\<close> when the key is absent and \<open>Some Vacio\<close> when it holds \<^verbatim>\<open>None\<close>;
  \<^verbatim>\<open>motivos\<close> is a list, empty when the key is absent (\<^verbatim>\<open>d.get("motivos", [])\<close>).
\<close>

record audiencia =
  radicado :: "valor option"
  tipo_audiencia :: "valor option"
  fecha :: "valor option"
  hora :: "valor option"
  juzgado :: "valor option"
  se_realizo :: "valor option"
  motivos :: "valor list"
  observaciones :: "valor option"

text \<open>\<^verbatim>\<open>d.get(k)\<close> and \<^verbatim>\<open>d.get(k, "")\<close> on a field.\<close>

definition dget :: "valor option \<Rightarrow> valor" where
  "dget f = (case f of None \<Rightarrow> Vacio | Some v \<Rightarrow> v)"

definition dget_or :: "valor option \<Rightarrow> valor \<Rightarrow> valor" where
  "dget_or f dflt = (case f of None \<Rightarrow> dflt | Some v \<Rightarrow> v)"

section \<open>Constants of the layout\<close>

definition ARCHIVOS_DIR :: string where "ARCHIVOS_DIR = ''archivos''"
definition PLANTILLA_PATH :: string where "PLANTILLA_PATH = ''Plantillas/plantilla_base''"
definition MAX_FILA_PERMITIDA :: nat where "MAX_FILA_PERMITIDA = 300"
definition FILA_ENCABEZADO :: nat where "FILA_ENCABEZADO = 10"

definition COL_NRO :: nat where "COL_NRO = 1"
definition COL_RADICADO :: nat where "COL_RADICADO = 2"
definition COL_TIPO :: nat where "COL_TIPO = 3"
definition COL_FECHA :: nat where "COL_FECHA = 4"
definition COL_HORA :: nat where "COL_HORA = 5"
definition COL_JUZGADO :: nat where "COL_JUZGADO = 6"
definition COL_REALIZADO_SI :: nat where "COL_REALIZADO_SI = 7"
definition COL_REALIZADO_NO :: nat where "COL_REALIZADO_NO = 8"
definition COL_MOTIVOS_INICIO :: nat where "COL_MOTIVOS_INICIO = 9"
definition COL_MOTIVOS_FIN :: nat where "COL_MOTIVOS_FIN = 16"
definition COL_OBSERVACIONES :: nat where "COL_OBSERVACIONES = 17"

lemmas columnas =
  COL_NRO_def COL_RADICADO_def COL_TIPO_def COL_FECHA_def COL_HORA_def COL_JUZGADO_def
  COL_REALIZADO_SI_def COL_REALIZADO_NO_def COL_MOTIVOS_INICIO_def COL_MOTIVOS_FIN_def
  COL_OBSERVACIONES_def

text \<open>The accented letters of the labels.\<close>

definition i_ac :: texto where "i_ac = [0xED]"
definition o_ac :: texto where "o_ac = [0xF3]"
definition u_ac :: texto where "u_ac = [0xFA]"

definition TIPOS_AUDIENCIA_VALIDOS :: "texto list" where
  "TIPOS_AUDIENCIA_VALIDOS =
    [tx ''Alegatos de conclusi'' @ o_ac @ tx ''n'',
     tx ''Audiencia concentrada'',
     tx ''Audiencia de acusaci'' @ o_ac @ tx ''n'',
     tx ''Audiencia de conciliaci'' @ o_ac @ tx ''n'',
     tx ''Audiencia de control de legalidad'',
     tx ''Audiencia de individualizaci'' @ o_ac @ tx ''n de pena'',
     tx ''Audiencia de imputaci'' @ o_ac @ tx ''n'',
     tx ''Audiencia de incidente de reparaci'' @ o_ac @ tx ''n integral'',
     tx ''Audiencia de juicio oral'',
     tx ''Audiencia de medidas de aseguramiento'',
     tx ''Audiencia de nulidad'',
     tx ''Audiencia de preclusi'' @ o_ac @ tx ''n'',
     tx ''Audiencia de pr'' @ o_ac @ tx ''rroga'',
     tx ''Audiencia de revisi'' @ o_ac @ tx ''n de medida'',
     tx ''Audiencia de verificaci'' @ o_ac @ tx ''n de cumplimiento'',
     tx ''Audiencia preliminar'',
     tx ''Audiencia preparatoria'',
     tx ''Otra'']"

section \<open>Errors\<close>

text \<open>
  Every \<^verbatim>\<open>raise\<close> of the source is a constructor. \<open>NoExiste\<close> is the
  \<^verbatim>\<open>FileNotFoundError\<close>, \<open>MismoArchivo\<close> the error of \<^verbatim>\<open>shutil.copy2\<close> on a
  file and itself, \<open>CaracterIlegal\<close> the \<^verbatim>\<open>IllegalCharacterError\<close> of the
  spreadsheet library; all the others are \<^verbatim>\<open>ValueError\<close>s, told apart by their
  message.
\<close>

datatype error =
    EsPlantilla
  | NoExiste string
  | HojaNula
  | CampoObligatorio string
  | TipoInvalido texto
  | SeRealizoInvalido
  | FechaHoraObligatorias
  | FechaHoraInvalida texto
  | DemasiadasAudiencias
  | SinEspacioMotivos
  | RadicadoDuplicado texto
  | MismoArchivo
  | CaracterIlegal

text \<open>The taxonomy of the specification over these errors.\<close>

fun es_validacion :: "error \<Rightarrow> bool" where
  "es_validacion (CampoObligatorio _) = True"
| "es_validacion (TipoInvalido _) = True"
| "es_validacion SeRealizoInvalido = True"
| "es_validacion FechaHoraObligatorias = True"
| "es_validacion (FechaHoraInvalida _) = True"
| "es_validacion (RadicadoDuplicado _) = True"
| "es_validacion _ = False"


section \<open>The record validator\<close>

text \<open>
  \<^verbatim>\<open>validar_campos_audiencia\<close> checks the six required keys in their order, then the
  trimmed label, then the trimmed and upper-cased flag. It mutates the dictionary; the
  model returns the mutated record.
\<close>

definition obligatorios :: "(string \<times> (audiencia \<Rightarrow> valor option)) list" where
  "obligatorios =
     [(''radicado'', radicado), (''tipo_audiencia'', tipo_audiencia), (''fecha'', fecha),
      (''hora'', hora), (''juzgado'', juzgado), (''se_realizo'', se_realizo)]"

fun primer_faltante :: "(string \<times> (audiencia \<Rightarrow> valor option)) list \<Rightarrow> audiencia \<Rightarrow> string option"
  where
  "primer_faltante [] d = None"
| "primer_faltante ((campo, f) # cs) d =
     (if \<not> truthy (dget (f d)) then Some campo else primer_faltante cs d)"

definition validar_campos_audiencia :: "audiencia \<Rightarrow> error + audiencia" where
  "validar_campos_audiencia d =
     (case primer_faltante obligatorios d of
        Some campo \<Rightarrow> Inl (CampoObligatorio campo)
      | None \<Rightarrow>
          let tipo = strip (py_str (dget (tipo_audiencia d))) in
          if tipo \<notin> set TIPOS_AUDIENCIA_VALIDOS then Inl (TipoInvalido tipo)
          else
            let se = upper (strip (py_str (dget (se_realizo d)))) in
            if se \<notin> set [tx ''SI'', tx ''NO''] then Inl SeRealizoInvalido
            else Inr (d\<lparr>se_realizo := Some (Texto se), tipo_audiencia := Some (Texto tipo)\<rparr>))"

section \<open>Parsing the date and the time\<close>

text \<open>
  \<^verbatim>\<open>datetime.strptime(s, "%d/%m/%Y %H:%M")\<close> of the standard library, which matches
  the string against the regular expression of the format:
  \<^verbatim>\<open>3[0-1]|[1-2]\d|0[1-9]|[1-9]| [1-9]\<close> for the day, \<^verbatim>\<open>1[0-2]|0[1-9]|[1-9]\<close> for
  the month, \<^verbatim>\<open>\d\d\d\d\<close> for the year, \<^verbatim>\<open>\s+\<close> for the blank,
  \<^verbatim>\<open>2[0-3]|[0-1]\d|\d\<close> for the hour and \<^verbatim>\<open>[0-5]\d|\d\<close> for the minute. A range in
  brackets holds ASCII digits; \<^verbatim>\<open>\d\<close> is any decimal digit of the Unicode database
  of the interpreter (version 14.0: sixty-six runs of ten digits, listed by their zeros)
  and \<^verbatim>\<open>\s\<close> any white space. Nothing may remain after the minute, and the date must
  exist in the calendar (year at least 1, day within the month). The result is the
  instant (year, month, day, hour, minute), ordered lexicographically as
  \<^verbatim>\<open>datetime\<close> values are.
\<close>

type_synonym datetime = "nat \<times> nat \<times> nat \<times> nat \<times> nat"

definition CEROS :: "nat list" where
  "CEROS =
     [0x30, 0x660, 0x6F0, 0x7C0, 0x966, 0x9E6, 0xA66, 0xAE6, 0xB66, 0xBE6,
      0xC66, 0xCE6, 0xD66, 0xDE6, 0xE50, 0xED0, 0xF20, 0x1040, 0x1090, 0x17E0,
      0x1810, 0x1946, 0x19D0, 0x1A80, 0x1A90, 0x1B50, 0x1BB0, 0x1C40, 0x1C50, 0xA620,
      0xA8D0, 0xA900, 0xA9D0, 0xA9F0, 0xAA50, 0xABF0, 0xFF10, 0x104A0, 0x10D30, 0x11066,
      0x110F0, 0x11136, 0x111D0, 0x112F0, 0x11450, 0x114D0, 0x11650, 0x116C0, 0x11730, 0x118E0,
      0x11950, 0x11C50, 0x11D50, 0x11DA0, 0x16A60, 0x16AC0, 0x16B50, 0x1D7CE, 0x1D7D8, 0x1D7E2,
      0x1D7EC, 0x1D7F6, 0x1E140, 0x1E2F0, 0x1E950, 0x1FBF0]"

definition es_digito :: "nat \<Rightarrow> bool" where
  "es_digito c = list_ex (\<lambda>z. z \<le> c \<and> c < z + 10) CEROS"

definition val_digito :: "nat \<Rightarrow> nat" where
  "val_digito c = (case find (\<lambda>z. z \<le> c \<and> c < z + 10) CEROS of None \<Rightarrow> 0 | Some z \<Rightarrow> c - z)"

definition campo_dia :: "texto \<Rightarrow> nat option" where
  "campo_dia s =
     (case s of
        [a] \<Rightarrow> if a \<in> set (tx ''123456789'') then Some (val_digito a) else None
      | [a, b] \<Rightarrow>
          if (a = 0x33 \<and> b \<in> set (tx ''01'')) \<or> (a \<in> set (tx ''12'') \<and> es_digito b)
             \<or> (a = 0x30 \<and> b \<in> set (tx ''123456789''))
          then Some (10 * val_digito a + val_digito b)
          else if a = 0x20 \<and> b \<in> set (tx ''123456789'') then Some (val_digito b)
          else None
      | _ \<Rightarrow> None)"

definition campo_mes :: "texto \<Rightarrow> nat option" where
  "campo_mes s =
     (case s of
        [a] \<Rightarrow> if a \<in> set (tx ''123456789'') then Some (val_digito a) else None
      | [a, b] \<Rightarrow>
          if (a = 0x31 \<and> b \<in> set (tx ''012'')) \<or> (a = 0x30 \<and> b \<in> set (tx ''123456789''))
          then Some (10 * val_digito a + val_digito b) else None
      | _ \<Rightarrow> None)"

definition campo_anio :: "texto \<Rightarrow> nat option" where
  "campo_anio s =
     (case s of
        [a, b, c, d] \<Rightarrow>
          if es_digito a \<and> es_digito b \<and> es_digito c \<and> es_digito d
          then Some (1000 * val_digito a + 100 * val_digito b + 10 * val_digito c + val_digito d)
          else None
      | _ \<Rightarrow> None)"

definition campo_hora :: "texto \<Rightarrow> nat option" where
  "campo_hora s =
     (case s of
        [a] \<Rightarrow> if es_digito a then Some (val_digito a) else None
      | [a, b] \<Rightarrow>
          if (a = 0x32 \<and> b \<in> set (tx ''0123'')) \<or> (a \<in> set (tx ''01'') \<and> es_digito b)
          then Some (10 * val_digito a + val_digito b) else None
      | _ \<Rightarrow> None)"

definition campo_minuto :: "texto \<Rightarrow> nat option" where
  "campo_minuto s =
     (case s of
        [a] \<Rightarrow> if es_digito a then Some (val_digito a) else None
      | [a, b] \<Rightarrow>
          if a \<in> set (tx ''012345'') \<and> es_digito b
          then Some (10 * val_digito a + val_digito b) else None
      | _ \<Rightarrow> None)"

definition bisiesto :: "nat \<Rightarrow> bool" where
  "bisiesto y = (y mod 4 = 0 \<and> (y mod 100 \<noteq> 0 \<or> y mod 400 = 0))"

definition dias_del_mes :: "nat \<Rightarrow> nat \<Rightarrow> nat" where
  "dias_del_mes y m =
     (if m = 2 then (if bisiesto y then 29 else 28)
      else if m \<in> {4, 6, 9, 11} then 30 else 31)"

definition strptime :: "texto \<Rightarrow> datetime option" where
  "strptime s =
     (let ds = takeWhile (\<lambda>c. c \<noteq> 0x2F) s;
          r1 = dropWhile (\<lambda>c. c \<noteq> 0x2F) s;
          ms = takeWhile (\<lambda>c. c \<noteq> 0x2F) (tl r1);
          r2 = dropWhile (\<lambda>c. c \<noteq> 0x2F) (tl r1);
          ys = take 4 (tl r2);
          r3 = drop 4 (tl r2);
          r4 = dropWhile isspace r3;
          hs = takeWhile (\<lambda>c. c \<noteq> 0x3A) r4;
          r5 = dropWhile (\<lambda>c. c \<noteq> 0x3A) r4
      in if r1 = [] \<or> r2 = [] \<or> r3 = [] \<or> \<not> isspace (hd r3) \<or> r5 = [] then None
         else
           (case (campo_dia ds, campo_mes ms, campo_anio ys, campo_hora hs,
                  campo_minuto (tl r5)) of
              (Some d, Some m, Some y, Some h, Some mi) \<Rightarrow>
                if 1 \<le> y \<and> d \<le> dias_del_mes y m then Some (y, m, d, h, mi) else None
            | _ \<Rightarrow> None))"

text \<open>
  \<^verbatim>\<open>parse_fecha_hora\<close>: both fields are required; anything raised while the two are
  concatenated and parsed (a field that is not a string included) becomes the format
  error.
\<close>

definition parse_fecha_hora :: "audiencia \<Rightarrow> error + datetime" where
  "parse_fecha_hora d =
     (let f = dget (fecha d); h = dget (hora d) in
      if \<not> truthy f \<or> \<not> truthy h then Inl FechaHoraObligatorias
      else
        (case (f, h) of
           (Texto fs, Texto hs) \<Rightarrow>
             (case strptime (fs @ tx '' '' @ hs) of
                Some dt \<Rightarrow> Inr dt
              | None \<Rightarrow> Inl (FechaHoraInvalida (fs @ tx '' '' @ hs)))
         | _ \<Rightarrow> Inl (FechaHoraInvalida (py_str f @ tx '' '' @ py_str h))))"

section \<open>The worksheet\<close>

text \<open>
  A worksheet of the spreadsheet library is the dictionary of its cells, keyed by
  (row, column): here an association list, the first entry of a key being the current
  one and the later ones the values that the cell had before. An entry that holds
  \<open>Vacio\<close> is a cell that exists without a value (a styled, empty cell). Fonts,
  fills, borders, number formats and merged ranges are not part of the model.
\<close>

type_synonym hoja = "((nat \<times> nat) \<times> valor) list"

text \<open>\<^verbatim>\<open>ws.cell(row=r, column=c).value\<close>\<close>

definition celda :: "hoja \<Rightarrow> nat \<Rightarrow> nat \<Rightarrow> valor" where
  "celda ws r c = (case map_of ws (r, c) of None \<Rightarrow> Vacio | Some v \<Rightarrow> v)"

text \<open>\<^verbatim>\<open>ws.max_row\<close>: the largest row that has a cell, 1 on a sheet without cells.\<close>

definition max_row :: "hoja \<Rightarrow> nat" where
  "max_row ws = (if ws = [] then 1 else fold (\<lambda>kv m. max (fst (fst kv)) m) ws 0)"

text \<open>
  What the library does to a value that is bound to a cell: a string is cut to its first
  32767 characters; the cut string must then have none of the control characters that the
  library refuses (all those below U+0020 but the tab, the line feed and the carriage
  return).
\<close>

fun recortar :: "valor \<Rightarrow> valor" where
  "recortar (Texto s) = Texto (take 32767 s)"
| "recortar v = v"

declare recortar.simps(1) [simp del]

definition ilegal :: "nat \<Rightarrow> bool" where
  "ilegal c = (c \<le> 0x08 \<or> c = 0x0B \<or> c = 0x0C \<or> (0x0E \<le> c \<and> c \<le> 0x1F))"

fun valor_legal :: "valor \<Rightarrow> bool" where
  "valor_legal (Texto s) = (\<not> list_ex ilegal s)"
| "valor_legal v = True"

text \<open>
  \<^verbatim>\<open>ws.cell(row=r, column=c, value=v)\<close>: the cell is created when it is missing, and
  its value is set unless \<open>v\<close> is \<^verbatim>\<open>None\<close>. The library raises its
  \<^verbatim>\<open>IllegalCharacterError\<close> here when the string has a character that it refuses.
  In the model the write always goes through and the error is reported by \<open>wb_save\<close>,
  when the workbook is saved: the store is written only there, so a call that writes such
  a string fails with the store as it was, in the model as in the code. The two differ in
  the error of a call that writes such a string and also exceeds the capacity: the code
  raises \<^verbatim>\<open>IllegalCharacterError\<close> in the loop of the data rows, the model the
  capacity error.
\<close>

definition ws_cell :: "hoja \<Rightarrow> nat \<Rightarrow> nat \<Rightarrow> valor \<Rightarrow> hoja" where
  "ws_cell ws r c v = ((r, c), (if v = Vacio then celda ws r c else recortar v)) # ws"

text \<open>
  \<^verbatim>\<open>ws.delete_rows(idx, amount)\<close>: the rows \<open>idx .. idx + amount - 1\<close> go away and every
  row below them moves up by \<open>amount\<close>.
\<close>

definition delete_rows :: "hoja \<Rightarrow> nat \<Rightarrow> nat \<Rightarrow> hoja" where
  "delete_rows ws idx amount =
     map (\<lambda>kv. ((fst (fst kv) - amount, snd (fst kv)), snd kv))
         (filter (\<lambda>kv. idx + amount \<le> fst (fst kv)) ws)
     @ filter (\<lambda>kv. fst (fst kv) < idx) ws"

text \<open>
  \<^verbatim>\<open>ws.merge_cells\<close> on the columns \<open>c1 .. c2\<close> of one row: every cell of the range but
  the first becomes a merged cell, which has no value.
\<close>

definition merge_cells :: "hoja \<Rightarrow> nat \<Rightarrow> nat \<Rightarrow> nat \<Rightarrow> hoja" where
  "merge_cells ws r c1 c2 = map (\<lambda>c. ((r, c), Vacio)) [Suc c1..<Suc c2] @ ws"

text \<open>
  What a value is once it was written to the file and loaded again. The empty string is
  written as a cell without a value and comes back as \<^verbatim>\<open>None\<close>. In a string, the
  parser of the file turns a carriage return, with the line feed that may follow it, into
  one line feed. A number is written with \<^verbatim>\<open>"%.16g"\<close>: the integer becomes the nearest
  float (ties to the even one), which is printed with sixteen significant digits; printed
  without an exponent (below \<open>10^16\<close>) it is read as that integer, otherwise as the float
  nearest to what was printed, and the model then holds the integer that this float is
  equal to. An integer too large for a float (\<open>2^1024\<close> and more) is outside the model.
\<close>

fun saltos :: "texto \<Rightarrow> texto" where
  "saltos [] = []"
| "saltos [c] = [if c = 0x0D then 0x0A else c]"
| "saltos (c # x # xs) =
     (if c = 0x0D then 0x0A # (if x = 0x0A then saltos xs else saltos (x # xs))
      else c # saltos (x # xs))"

definition redondear :: "nat \<Rightarrow> nat \<Rightarrow> nat" where
  "redondear n m =
     (let q = n div m; r = n mod m
      in if m < 2 * r \<or> (2 * r = m \<and> odd q) then (q + 1) * m else q * m)"

fun longitud_bits :: "nat \<Rightarrow> nat" where
  "longitud_bits n = (if n = 0 then 0 else Suc (longitud_bits (n div 2)))"

declare longitud_bits.simps [simp del]

definition a_float :: "nat \<Rightarrow> nat" where
  "a_float n = (if n < 2 ^ 53 then n else redondear n (2 ^ (longitud_bits n - 53)))"

definition formato_16g :: "nat \<Rightarrow> nat" where
  "formato_16g n = (if n < 10 ^ 16 then n else redondear n (10 ^ (length (digitos n) - 16)))"

definition numero_guardado :: "int \<Rightarrow> int" where
  "numero_guardado i =
     (let w = formato_16g (a_float (nat \<bar>i\<bar>))
      in sgn i * int (if w < 10 ^ 16 then w else a_float w))"

fun serializar :: "valor \<Rightarrow> valor" where
  "serializar Vacio = Vacio"
| "serializar (Texto s) = (if s = [] then Vacio else Texto (saltos s))"
| "serializar (Entero i) = Entero (numero_guardado i)"

text \<open>
  \<^verbatim>\<open>wb.save\<close>, followed by the next \<^verbatim>\<open>load_workbook\<close> of the file: the sheet as it
  will be loaded. The error is the one of a cell write (see \<open>ws_cell\<close>): some value
  that was written to the sheet has a character that the library refuses.
\<close>

definition wb_save :: "hoja \<Rightarrow> error + hoja" where
  "wb_save ws =
     (if list_ex (\<lambda>kv. \<not> valor_legal (snd kv)) ws then Inl CaracterIlegal
      else Inr (map (\<lambda>kv. (fst kv, serializar (snd kv))) ws))"

lemma celda_ws_cell:
  "celda (ws_cell ws r c v) r' c' =
     (if r' = r \<and> c' = c then (if v = Vacio then celda ws r c else recortar v)
      else celda ws r' c')"
  by (auto simp: celda_def ws_cell_def)

lemma max_row_ge_aux:
  fixes ws :: hoja
  shows "kv \<in> set ws \<Longrightarrow> fst (fst kv) \<le> fold (\<lambda>kv m. max (fst (fst kv)) m) ws m0"
proof (induction ws arbitrary: m0)
  case Nil
  then show ?case by simp
next
  case (Cons a ws)
  have mono: "m0 \<le> fold (\<lambda>kv m. max (fst (fst kv)) m) xs m0" for xs and m0 :: nat
  proof (induction xs arbitrary: m0)
    case Nil
    show ?case by simp
  next
    case (Cons x xs)
    have "m0 \<le> max (fst (fst x)) m0" by simp
    also have "\<dots> \<le> fold (\<lambda>kv m. max (fst (fst kv)) m) xs (max (fst (fst x)) m0)"
      by (rule Cons.IH)
    finally show ?case by simp
  qed
  show ?case
  proof (cases "kv = a")
    case True
    have "fst (fst a) \<le> max (fst (fst a)) m0" by simp
    also have "\<dots> \<le> fold (\<lambda>kv m. max (fst (fst kv)) m) ws (max (fst (fst a)) m0)"
      by (rule mono)
    finally show ?thesis using True by simp
  next
    case False
    with Cons.prems have "kv \<in> set ws" by simp
    from Cons.IH [OF this] show ?thesis by simp
  qed
qed

lemma celda_fuera_de_max_row: "max_row ws < r \<Longrightarrow> celda ws r c = Vacio"
proof (rule ccontr)
  assume lt: "max_row ws < r" and ne: "celda ws r c \<noteq> Vacio"
  from ne obtain v where "map_of ws (r, c) = Some v"
    by (auto simp: celda_def split: option.splits)
  then have mem: "((r, c), v) \<in> set ws" by (rule map_of_SomeD)
  then have "ws \<noteq> []" by auto
  moreover from max_row_ge_aux [OF mem, of 0] have "r \<le> fold (\<lambda>kv m. max (fst (fst kv)) m) ws 0"
    by simp
  ultimately show False using lt by (simp add: max_row_def)
qed

lemma truthy_max_row: "truthy (celda ws r c) \<Longrightarrow> r \<le> max_row ws"
  using celda_fuera_de_max_row [of ws r c] by (cases "r \<le> max_row ws") auto

section \<open>Paths and the file store\<close>

text \<open>
  \<^verbatim>\<open>os.path.join\<close>, \<^verbatim>\<open>os.path.normpath\<close> and \<^verbatim>\<open>os.path.abspath\<close> of POSIX, and
  \<^verbatim>\<open>Path(p).stem\<close>. The store maps the absolute path of a file to its workbook, which
  is its active sheet, or \<open>None\<close> when the workbook has none. Links between paths
  are not modelled.
\<close>

fun split_sep :: "char \<Rightarrow> string \<Rightarrow> string list" where
  "split_sep sep [] = [[]]"
| "split_sep sep (x # xs) =
     (if x = sep then [] # split_sep sep xs
      else (case split_sep sep xs of [] \<Rightarrow> [[x]] | y # ys \<Rightarrow> (x # y) # ys))"

fun join_sep :: "string \<Rightarrow> string list \<Rightarrow> string" where
  "join_sep sep [] = []"
| "join_sep sep [x] = x"
| "join_sep sep (x # y # ys) = x @ sep @ join_sep sep (y # ys)"

definition os_path_join :: "string \<Rightarrow> string \<Rightarrow> string" where
  "os_path_join a b =
     (if startswith b ''/'' then b
      else if a = [] \<or> endswith a ''/'' then a @ b
      else a @ ''/'' @ b)"

definition normpath_paso :: "nat \<Rightarrow> string \<Rightarrow> string list \<Rightarrow> string list" where
  "normpath_paso inicial parte nuevos =
     (if parte = [] \<or> parte = ''.'' then nuevos
      else if parte \<noteq> ''..'' \<or> (inicial = 0 \<and> nuevos = [])
              \<or> (nuevos \<noteq> [] \<and> last nuevos = ''..'')
      then nuevos @ [parte]
      else if nuevos \<noteq> [] then butlast nuevos
      else nuevos)"

definition normpath :: "string \<Rightarrow> string" where
  "normpath p =
     (if p = [] then ''.''
      else
        let inicial = (if startswith p ''/''
                       then (if startswith p ''//'' \<and> \<not> startswith p ''///'' then 2 else 1)
                       else 0);
            comps = fold (normpath_paso inicial) (split_sep (CHR ''/'') p) [];
            path = replicate inicial (CHR ''/'') @ join_sep ''/'' comps
        in if path = [] then ''.'' else path)"

definition abspath :: "string \<Rightarrow> string \<Rightarrow> string" where
  "abspath dir p = normpath (if startswith p ''/'' then p else os_path_join dir p)"

definition path_name :: "string \<Rightarrow> string" where
  "path_name p =
     (let partes = filter (\<lambda>c. c \<noteq> [] \<and> c \<noteq> ''.'') (split_sep (CHR ''/'') p)
      in if partes = [] then [] else last partes)"

definition path_stem :: "string \<Rightarrow> string" where
  "path_stem p =
     (let name = path_name p in
      if CHR ''.'' \<in> set name then
        (let i = length name - 1 - length (takeWhile (\<lambda>c. c \<noteq> CHR ''.'') (rev name))
         in if 0 < i \<and> i < length name - 1 then take i name else name)
      else name)"

type_synonym libro = "hoja option"

record sistema =
  cwd :: string
  ficheros :: "string \<rightharpoonup> libro"

text \<open>\<^verbatim>\<open>os.path.exists\<close> with \<^verbatim>\<open>load_workbook\<close>: the workbook at a path, if any.\<close>

definition load_workbook :: "sistema \<Rightarrow> string \<Rightarrow> libro option" where
  "load_workbook s ruta = ficheros s (abspath (cwd s) ruta)"

definition escribir_fichero :: "sistema \<Rightarrow> string \<Rightarrow> libro \<Rightarrow> sistema" where
  "escribir_fichero s ruta l = s\<lparr>ficheros := (ficheros s)(abspath (cwd s) ruta \<mapsto> l)\<rparr>"

definition os_unlink :: "sistema \<Rightarrow> string \<Rightarrow> sistema" where
  "os_unlink s ruta = s\<lparr>ficheros := (ficheros s)(abspath (cwd s) ruta := None)\<rparr>"

text \<open>\<^verbatim>\<open>validar_no_es_plantilla\<close>\<close>

definition validar_no_es_plantilla :: "sistema \<Rightarrow> string \<Rightarrow> error + unit" where
  "validar_no_es_plantilla s nombre_archivo =
     (if abspath (cwd s) (os_path_join ARCHIVOS_DIR nombre_archivo)
           = abspath (cwd s) PLANTILLA_PATH
      then Inl EsPlantilla else Inr ())"

section \<open>Replacing all the records of a ledger\<close>

text \<open>
  The first step of \<^verbatim>\<open>guardar_audiencias_excel\<close> on the loaded sheet: the rows below
  the header are deleted, up to the row before the ceiling.
\<close>

definition borrar_datos_previos :: "hoja \<Rightarrow> hoja" where
  "borrar_datos_previos ws =
     (let max_row = min (max_row ws) (MAX_FILA_PERMITIDA - 1) in
      if max_row > FILA_ENCABEZADO
      then delete_rows ws (FILA_ENCABEZADO + 1) (max_row - FILA_ENCABEZADO)
      else ws)"

text \<open>The loop \<^verbatim>\<open>for d in datos: validar_campos_audiencia(d); parse_fecha_hora(d)\<close>.\<close>

fun validar_todas :: "audiencia list \<Rightarrow> error + audiencia list" where
  "validar_todas [] = Inr []"
| "validar_todas (d # ds) =
     (case validar_campos_audiencia d of
        Inl e \<Rightarrow> Inl e
      | Inr d' \<Rightarrow>
          (case parse_fecha_hora d' of
             Inl e \<Rightarrow> Inl e
           | Inr _ \<Rightarrow>
               (case validar_todas ds of Inl e \<Rightarrow> Inl e | Inr ds' \<Rightarrow> Inr (d' # ds'))))"

text \<open>
  \<^verbatim>\<open>sorted(datos, key=parse_fecha_hora, reverse=True)\<close>: the keys are computed first,
  one per record; the list is reversed, sorted by a stable ascending sort and reversed
  again, so that records with equal keys keep their order.
\<close>

fun claves :: "audiencia list \<Rightarrow> error + datetime list" where
  "claves [] = Inr []"
| "claves (d # ds) =
     (case parse_fecha_hora d of
        Inl e \<Rightarrow> Inl e
      | Inr k \<Rightarrow> (case claves ds of Inl e \<Rightarrow> Inl e | Inr ks \<Rightarrow> Inr (k # ks)))"

definition sorted_reverse :: "('a \<Rightarrow> 'k::linorder) \<Rightarrow> 'a list \<Rightarrow> 'a list" where
  "sorted_reverse f xs = rev (sort_key f (rev xs))"

text \<open>
  One turn of the loop that writes the data rows: the values written to the row, in the
  order of the source (the reason cells are written twice there), then the copy of the
  styles of row 11, which touches the seventeen cells of both rows and keeps their values.
  The required keys are present when this runs, \<^verbatim>\<open>validar_campos_audiencia\<close> having
  passed, so \<^verbatim>\<open>d["radicado"]\<close> and the like read the field.
\<close>

definition escrituras_fila :: "nat \<Rightarrow> audiencia \<Rightarrow> (nat \<times> valor) list" where
  "escrituras_fila idx d =
     [(COL_NRO, Entero (int idx)),
      (COL_RADICADO, dget (radicado d)),
      (COL_TIPO, dget (tipo_audiencia d)),
      (COL_FECHA, dget (fecha d)),
      (COL_HORA, dget (hora d)),
      (COL_JUZGADO, dget (juzgado d)),
      (COL_REALIZADO_SI, Texto []),
      (COL_REALIZADO_NO, Texto [])]
     @ (if dget (se_realizo d) = Texto (tx ''SI'') then [(COL_REALIZADO_SI, Texto (tx ''X''))]
        else if dget (se_realizo d) = Texto (tx ''NO'') then [(COL_REALIZADO_NO, Texto (tx ''X''))]
        else [])
     @ [(COL_OBSERVACIONES, dget_or (observaciones d) (Texto []))]
     @ concat (map (\<lambda>i. let motivo = (if i < length (motivos d) then motivos d ! i
                                      else Texto [])
                         in [(COL_MOTIVOS_INICIO + i, motivo), (COL_MOTIVOS_INICIO + i, motivo)])
                   [0..<COL_MOTIVOS_FIN + 1 - COL_MOTIVOS_INICIO])"

definition escribir_celdas :: "hoja \<Rightarrow> nat \<Rightarrow> (nat \<times> valor) list \<Rightarrow> hoja" where
  "escribir_celdas ws fila es = fold (\<lambda>cv ws. ws_cell ws fila (fst cv) (snd cv)) es ws"

definition copiar_estilos_fila :: "hoja \<Rightarrow> nat \<Rightarrow> nat \<Rightarrow> hoja" where
  "copiar_estilos_fila ws fila_origen fila_destino =
     fold (\<lambda>col ws. ws_cell (ws_cell ws fila_origen col Vacio) fila_destino col Vacio)
          [1..<18] ws"

definition escribir_fila :: "hoja \<Rightarrow> nat \<Rightarrow> audiencia \<Rightarrow> hoja" where
  "escribir_fila ws idx d =
     (let fila = FILA_ENCABEZADO + idx
      in copiar_estilos_fila (escribir_celdas ws fila (escrituras_fila idx d))
           (FILA_ENCABEZADO + 1) fila)"

text \<open>\<^verbatim>\<open>for idx, d in enumerate(datos_ordenados, start=1)\<close>\<close>

fun escribir_datos :: "hoja \<Rightarrow> nat \<Rightarrow> audiencia list \<Rightarrow> hoja" where
  "escribir_datos ws idx [] = ws"
| "escribir_datos ws idx (d # ds) = escribir_datos (escribir_fila ws idx d) (Suc idx) ds"

text \<open>
  The search for earlier totals rows, from the row after the data downwards: the rows
  whose column G or H starts with \<^verbatim>\<open>TOTAL DE\<close>, up to the first row that has
  neither cell or does not start so. They are then deleted from the last to the first.
\<close>

definition o_vacio :: "valor \<Rightarrow> valor" where
  "o_vacio v = (if truthy v then v else Texto [])"

function buscar_totales :: "hoja \<Rightarrow> nat \<Rightarrow> nat list" where
  "buscar_totales ws fila_busqueda =
     (if truthy (celda ws fila_busqueda 7) \<or> truthy (celda ws fila_busqueda 8) then
        (let valor_g = py_str (o_vacio (celda ws fila_busqueda 7));
             valor_h = py_str (o_vacio (celda ws fila_busqueda 8))
         in if startswith valor_g (tx ''TOTAL DE'') \<or> startswith valor_h (tx ''TOTAL DE'')
            then fila_busqueda # buscar_totales ws (fila_busqueda + 1)
            else [])
      else [])"
  by pat_completeness auto
termination
proof (relation "measure (\<lambda>(ws, fila). Suc (max_row ws) - fila)")
  show "wf (measure (\<lambda>(ws, fila). Suc (max_row ws) - fila))" by simp
next
  fix ws :: hoja and fila_busqueda :: nat and x xa
  assume "truthy (celda ws fila_busqueda 7) \<or> truthy (celda ws fila_busqueda 8)"
  then have "fila_busqueda \<le> max_row ws" by (auto dest: truthy_max_row)
  then show "((ws, fila_busqueda + 1), (ws, fila_busqueda))
               \<in> measure (\<lambda>(ws, fila). Suc (max_row ws) - fila)"
    by simp
qed

declare buscar_totales.simps [simp del]

definition eliminar_totales_previos :: "hoja \<Rightarrow> nat \<Rightarrow> hoja" where
  "eliminar_totales_previos ws fila_busqueda =
     fold (\<lambda>f ws. delete_rows ws f 1) (rev (buscar_totales ws fila_busqueda)) ws"

text \<open>
  The count of the reasons, read back from the sheet: over the rows from 11 to the row
  before the totals whose column H is \<^verbatim>\<open>X\<close>, every reason cell with a value adds one
  to the count of its column.
\<close>

definition contar_motivos :: "hoja \<Rightarrow> nat \<Rightarrow> nat \<Rightarrow> nat" where
  "contar_motivos ws fila_totales =
     fold (\<lambda>fila conteo.
             if celda ws fila COL_REALIZADO_NO = Texto (tx ''X'')
             then fold (\<lambda>col conteo. if truthy (celda ws fila col)
                                       then conteo(col := conteo col + 1) else conteo)
                       [COL_MOTIVOS_INICIO..<COL_MOTIVOS_FIN + 1] conteo
             else conteo)
          [FILA_ENCABEZADO + 1..<fila_totales] (\<lambda>col. 0)"

definition motivos_nombres :: "nat \<Rightarrow> texto" where
  "motivos_nombres col =
     [tx ''Juez'', tx ''Fiscal'' @ i_ac @ tx ''a'', tx ''Usuario'', tx ''Inpec'',
      tx ''V'' @ i_ac @ tx ''ctima'', tx ''ICBF'', tx ''Defensor Confianza'',
      tx ''Defensor P'' @ u_ac @ tx ''blico'']
     ! (col - COL_MOTIVOS_INICIO)"

definition escribir_totales_motivos :: "hoja \<Rightarrow> nat \<Rightarrow> (nat \<Rightarrow> nat) \<Rightarrow> hoja" where
  "escribir_totales_motivos ws fila_totales_motivos conteo_motivos =
     fold (\<lambda>col ws. ws_cell ws fila_totales_motivos col
                       (Texto (motivos_nombres col @ tx '': '' @ str_nat (conteo_motivos col))))
          [COL_MOTIVOS_INICIO..<COL_MOTIVOS_FIN + 1] ws"

text \<open>
  The body of \<^verbatim>\<open>guardar_audiencias_excel\<close> on the sheet, from the data rows to the row
  of the reason totals, with its two capacity checks where the source has them: after
  the data rows are written.
\<close>

definition escribir_hoja :: "hoja \<Rightarrow> audiencia list \<Rightarrow> error + hoja" where
  "escribir_hoja ws datos_ordenados =
     (let ws1 = escribir_datos ws 1 datos_ordenados;
          fila_datos_fin = FILA_ENCABEZADO + length datos_ordenados;
          ws2 = eliminar_totales_previos ws1 (fila_datos_fin + 1);
          total_si = length (filter (\<lambda>d. dget (se_realizo d) = Texto (tx ''SI'')) datos_ordenados);
          total_no = length (filter (\<lambda>d. dget (se_realizo d) = Texto (tx ''NO'')) datos_ordenados);
          fila_totales = FILA_ENCABEZADO + length datos_ordenados + 1
      in if fila_totales > MAX_FILA_PERMITIDA then Inl DemasiadasAudiencias
         else
           (let ws3 = ws_cell ws2 fila_totales COL_REALIZADO_SI
                        (Texto (tx ''TOTAL DE AUDIENCIAS REALIZADAS: '' @ str_nat total_si));
                ws4 = ws_cell ws3 fila_totales COL_REALIZADO_NO
                        (Texto (tx ''TOTAL DE AUDIENCIAS NO REALIZADAS: '' @ str_nat total_no));
                fila_totales_motivos = fila_totales + 1
            in if fila_totales_motivos \<ge> MAX_FILA_PERMITIDA then Inl SinEspacioMotivos
               else Inr (escribir_totales_motivos ws4 fila_totales_motivos
                           (contar_motivos ws4 fila_totales))))"

text \<open>
  \<^verbatim>\<open>guardar_audiencias_excel\<close>. The file is written once, by \<^verbatim>\<open>wb.save\<close> at the end:
  every error leaves the store as it was.
\<close>

definition guardar_audiencias_excel ::
  "audiencia list \<Rightarrow> string \<Rightarrow> sistema \<Rightarrow> (error + unit) \<times> sistema" where
  "guardar_audiencias_excel datos nombre_archivo s =
     (case validar_no_es_plantilla s nombre_archivo of
        Inl e \<Rightarrow> (Inl e, s)
      | Inr _ \<Rightarrow>
          (let ruta = os_path_join ARCHIVOS_DIR nombre_archivo in
           case load_workbook s ruta of
             None \<Rightarrow> (Inl (NoExiste ruta), s)
           | Some None \<Rightarrow> (Inl HojaNula, s)
           | Some (Some ws0) \<Rightarrow>
               (let ws = borrar_datos_previos ws0 in
                case validar_todas datos of
                  Inl e \<Rightarrow> (Inl e, s)
                | Inr ds \<Rightarrow>
                    (case claves ds of
                       Inl e \<Rightarrow> (Inl e, s)
                     | Inr ks \<Rightarrow>
                         (let datos_ordenados = map snd (sorted_reverse fst (zip ks ds)) in
                          case escribir_hoja ws datos_ordenados of
                            Inl e \<Rightarrow> (Inl e, s)
                          | Inr ws' \<Rightarrow>
                              (case wb_save ws' of
                                 Inl e \<Rightarrow> (Inl e, s)
                               | Inr guardada \<Rightarrow>
                                   (Inr (), escribir_fichero s ruta (Some guardada))))))))"

section \<open>Reading the records and appending one\<close>

text \<open>
  The reading loop of \<^verbatim>\<open>guardar_una_audiencia_excel\<close>: rows from 11 on, while column B
  has a value. The flag is inferred from the \<^verbatim>\<open>X\<close> of column G or H.
\<close>

definition registro_de_fila :: "hoja \<Rightarrow> nat \<Rightarrow> audiencia" where
  "registro_de_fila ws fila =
     (let valor_si = celda ws fila COL_REALIZADO_SI;
          valor_no = celda ws fila COL_REALIZADO_NO;
          se = (if truthy valor_si \<and> strip (py_str valor_si) = tx ''X'' then tx ''SI''
                else if truthy valor_no \<and> strip (py_str valor_no) = tx ''X'' then tx ''NO''
                else [])
      in \<lparr> radicado = Some (celda ws fila COL_RADICADO),
           tipo_audiencia = Some (celda ws fila COL_TIPO),
           fecha = Some (celda ws fila COL_FECHA),
           hora = Some (celda ws fila COL_HORA),
           juzgado = Some (celda ws fila COL_JUZGADO),
           se_realizo = Some (Texto se),
           motivos = map (\<lambda>col. o_vacio (celda ws fila col))
                         [COL_MOTIVOS_INICIO..<COL_MOTIVOS_FIN + 1],
           observaciones = Some (celda ws fila COL_OBSERVACIONES) \<rparr>)"

function leer_desde :: "hoja \<Rightarrow> nat \<Rightarrow> audiencia list" where
  "leer_desde ws fila =
     (if truthy (celda ws fila COL_RADICADO)
      then registro_de_fila ws fila # leer_desde ws (fila + 1)
      else [])"
  by pat_completeness auto
termination
proof (relation "measure (\<lambda>(ws, fila). Suc (max_row ws) - fila)")
  show "wf (measure (\<lambda>(ws, fila). Suc (max_row ws) - fila))" by simp
next
  fix ws :: hoja and fila :: nat
  assume "truthy (celda ws fila COL_RADICADO)"
  then have "fila \<le> max_row ws" by (rule truthy_max_row)
  then show "((ws, fila + 1), (ws, fila)) \<in> measure (\<lambda>(ws, fila). Suc (max_row ws) - fila)"
    by simp
qed

declare leer_desde.simps [simp del]

definition leer_audiencias :: "hoja \<Rightarrow> audiencia list" where
  "leer_audiencias ws = leer_desde ws (FILA_ENCABEZADO + 1)"

text \<open>\<^verbatim>\<open>guardar_una_audiencia_excel\<close>; the result is the count it returns.\<close>

definition guardar_una_audiencia_excel ::
  "audiencia \<Rightarrow> string \<Rightarrow> sistema \<Rightarrow> (error + nat) \<times> sistema" where
  "guardar_una_audiencia_excel d nombre_archivo s =
     (let ruta = os_path_join ARCHIVOS_DIR nombre_archivo in
      case load_workbook s ruta of
        None \<Rightarrow> (Inl (NoExiste ruta), s)
      | Some None \<Rightarrow> (Inl HojaNula, s)
      | Some (Some ws) \<Rightarrow>
          (let audiencias_existentes = leer_audiencias ws;
               nuevo_radicado = strip (py_str (dget_or (radicado d) (Texto [])))
           in if list_ex (\<lambda>a. strip (py_str (dget_or (radicado a) (Texto []))) = nuevo_radicado)
                   audiencias_existentes
              then (Inl (RadicadoDuplicado nuevo_radicado), s)
              else
                (case guardar_audiencias_excel (audiencias_existentes @ [d]) nombre_archivo s of
                   (Inl e, s') \<Rightarrow> (Inl e, s')
                 | (Inr _, s') \<Rightarrow> (Inr (length audiencias_existentes + 1), s'))))"

section \<open>Exporting with the signature\<close>

text \<open>
  \<^verbatim>\<open>exportar_con_firma\<close>, given the date of the day. The copy is made first, over
  whatever the destination holds; the two loops then walk down column B and down the
  columns G and H; the signature goes to the next row, which is merged from A to Q.
\<close>

definition zfill :: "nat \<Rightarrow> string \<Rightarrow> string" where
  "zfill w t = replicate (w - length t) (CHR ''0'') @ t"

definition strftime_Ymd :: "nat \<times> nat \<times> nat \<Rightarrow> string" where
  "strftime_Ymd hoy =
     (case hoy of (y, m, d) \<Rightarrow> zfill 4 (digitos y) @ zfill 2 (digitos m) @ zfill 2 (digitos d))"

function avanzar_datos :: "hoja \<Rightarrow> nat \<Rightarrow> nat" where
  "avanzar_datos ws ultima_fila =
     (if truthy (celda ws (ultima_fila + 1) COL_RADICADO)
      then avanzar_datos ws (ultima_fila + 1) else ultima_fila)"
  by pat_completeness auto
termination
proof (relation "measure (\<lambda>(ws, fila). Suc (max_row ws) - fila)")
  show "wf (measure (\<lambda>(ws, fila). Suc (max_row ws) - fila))" by simp
next
  fix ws :: hoja and ultima_fila :: nat
  assume "truthy (celda ws (ultima_fila + 1) COL_RADICADO)"
  then have "ultima_fila + 1 \<le> max_row ws" by (rule truthy_max_row)
  then show "((ws, ultima_fila + 1), (ws, ultima_fila))
               \<in> measure (\<lambda>(ws, fila). Suc (max_row ws) - fila)"
    by simp
qed

declare avanzar_datos.simps [simp del]

function avanzar_totales :: "hoja \<Rightarrow> nat \<Rightarrow> nat" where
  "avanzar_totales ws ultima_fila =
     (if truthy (celda ws (ultima_fila + 1) COL_REALIZADO_SI)
         \<or> truthy (celda ws (ultima_fila + 1) COL_REALIZADO_NO)
      then avanzar_totales ws (ultima_fila + 1) else ultima_fila)"
  by pat_completeness auto
termination
proof (relation "measure (\<lambda>(ws, fila). Suc (max_row ws) - fila)")
  show "wf (measure (\<lambda>(ws, fila). Suc (max_row ws) - fila))" by simp
next
  fix ws :: hoja and ultima_fila :: nat
  assume "truthy (celda ws (ultima_fila + 1) COL_REALIZADO_SI)
            \<or> truthy (celda ws (ultima_fila + 1) COL_REALIZADO_NO)"
  then have "ultima_fila + 1 \<le> max_row ws" by (auto dest: truthy_max_row)
  then show "((ws, ultima_fila + 1), (ws, ultima_fila))
               \<in> measure (\<lambda>(ws, fila). Suc (max_row ws) - fila)"
    by simp
qed

declare avanzar_totales.simps [simp del]

definition FIRMA :: texto where
  "FIRMA = tx ''Firma del defensor p'' @ u_ac @ tx ''blico:__________________________''"

definition fila_firma :: "hoja \<Rightarrow> nat" where
  "fila_firma ws = avanzar_totales ws (avanzar_datos ws FILA_ENCABEZADO) + 1"

definition firmar :: "hoja \<Rightarrow> hoja" where
  "firmar ws = merge_cells (ws_cell ws (fila_firma ws) 1 (Texto FIRMA)) (fila_firma ws) 1 17"

definition nombre_xlsx :: "string \<Rightarrow> string" where
  "nombre_xlsx nombre_archivo =
     (if \<not> endswith nombre_archivo ''.xlsx'' then nombre_archivo @ ''.xlsx''
      else nombre_archivo)"

definition ruta_destino :: "string \<Rightarrow> nat \<times> nat \<times> nat \<Rightarrow> string" where
  "ruta_destino nombre_archivo hoy =
     os_path_join ARCHIVOS_DIR
       (path_stem (nombre_xlsx nombre_archivo) @ ''_exportado_'' @ strftime_Ymd hoy @ ''.xlsx'')"

definition exportar_con_firma ::
  "string \<Rightarrow> nat \<times> nat \<times> nat \<Rightarrow> sistema \<Rightarrow> (error + string) \<times> sistema" where
  "exportar_con_firma nombre_archivo hoy s =
     (let ruta_origen = os_path_join ARCHIVOS_DIR (nombre_xlsx nombre_archivo) in
      case load_workbook s ruta_origen of
        None \<Rightarrow> (Inl (NoExiste ruta_origen), s)
      | Some l \<Rightarrow>
          (let destino = ruta_destino nombre_archivo hoy in
           if abspath (cwd s) ruta_origen = abspath (cwd s) destino then (Inl MismoArchivo, s)
           else
             (let s1 = escribir_fichero s destino l in
              case l of
                None \<Rightarrow> (Inl HojaNula, os_unlink s1 destino)
              | Some ws \<Rightarrow>
                  (case wb_save (firmar ws) of
                     Inl e \<Rightarrow> (Inl e, s1)
                   | Inr guardada \<Rightarrow>
                       (Inr destino, escribir_fichero s1 destino (Some guardada))))))"


section \<open>Predicates of the properties, example records and ledgers\<close>

text \<open>All six required keys of a record hold a value that Python takes as true.\<close>

definition campos_presentes :: "audiencia \<Rightarrow> bool" where
  "campos_presentes d =
     (truthy (dget (radicado d)) \<and> truthy (dget (tipo_audiencia d)) \<and> truthy (dget (fecha d))
      \<and> truthy (dget (hora d)) \<and> truthy (dget (juzgado d)) \<and> truthy (dget (se_realizo d)))"

text \<open>The record of the scenario of the specification.\<close>

definition audiencia_ejemplo :: audiencia where
  "audiencia_ejemplo =
     \<lparr> radicado = Some (Texto (tx ''12345-ABC'')),
       tipo_audiencia = Some (Texto (tx ''Audiencia de conciliaci'' @ o_ac @ tx ''n'')),
       fecha = Some (Texto (tx ''25/07/2024'')), hora = Some (Texto (tx ''10:00'')),
       juzgado = Some (Texto (tx ''Juzgado 1'')), se_realizo = Some (Texto (tx ''si'')),
       motivos = [Texto (tx ''Acuerdo'')], observaciones = Some (Texto (tx ''ok'')) \<rparr>"

text \<open>A record whose label and flag carry blanks around them.\<close>

definition audiencia_con_blancos :: audiencia where
  "audiencia_con_blancos =
     \<lparr> radicado = Some (Texto (tx ''2'')), tipo_audiencia = Some (Texto (tx '' Otra '')),
       fecha = Some (Texto (tx ''26/07/2024'')), hora = Some (Texto (tx ''9:05'')),
       juzgado = Some (Texto (tx ''Juzgado 2'')), se_realizo = Some (Texto (tx '' no '')),
       motivos = [Texto (tx ''Juez'')], observaciones = None \<rparr>"

text \<open>
  A record whose label ends with a no-break space (U+00A0) and whose flag is a long s
  (U+017F) and a dotless i (U+0131) after an ideographic space (U+3000).
\<close>

definition audiencia_unicode :: audiencia where
  "audiencia_unicode =
     \<lparr> radicado = Some (Texto (tx ''4'')), tipo_audiencia = Some (Texto (tx ''Otra'' @ [0xA0])),
       fecha = Some (Texto (tx ''26/07/2024'')), hora = Some (Texto (tx ''9:05'')),
       juzgado = Some (Texto (tx ''Juzgado 2'')), se_realizo = Some (Texto [0x3000, 0x17F, 0x131]),
       motivos = [], observaciones = None \<rparr>"

text \<open>
  A record is valid when \<^verbatim>\<open>validar_campos_audiencia\<close> and then \<^verbatim>\<open>parse_fecha_hora\<close>
  pass on it, as in the loop of \<^verbatim>\<open>guardar_audiencias_excel\<close>; \<open>normalizada\<close> is the
  record as the validator leaves it, \<open>instante\<close> the parsed date and time, and
  \<open>ordenadas\<close> the list in the order in which the rows are written.
\<close>

definition valida :: "audiencia \<Rightarrow> bool" where
  "valida d =
     (case validar_campos_audiencia d of
        Inl _ \<Rightarrow> False
      | Inr d' \<Rightarrow> (case parse_fecha_hora d' of Inl _ \<Rightarrow> False | Inr _ \<Rightarrow> True))"

definition normalizada :: "audiencia \<Rightarrow> audiencia" where
  "normalizada d = (case validar_campos_audiencia d of Inl _ \<Rightarrow> d | Inr d' \<Rightarrow> d')"

definition instante :: "audiencia \<Rightarrow> datetime" where
  "instante d = (case parse_fecha_hora d of Inl _ \<Rightarrow> (0, 0, 0, 0, 0) | Inr k \<Rightarrow> k)"

definition ordenadas :: "audiencia list \<Rightarrow> audiencia list" where
  "ordenadas ds = map snd (sorted_reverse fst (zip (map instante ds) ds))"

text \<open>The path of a ledger, \<^verbatim>\<open>os.path.join(ARCHIVOS_DIR, nombre_archivo)\<close>.\<close>

definition ruta_de :: "string \<Rightarrow> string" where
  "ruta_de nombre_archivo = os_path_join ARCHIVOS_DIR nombre_archivo"

text \<open>
  A store with one ledger, \<^verbatim>\<open>test.xlsx\<close>, that holds a given sheet; the sheet of that
  ledger in a store; and the store with the sheet that has no cells.
\<close>

definition sistema_con :: "hoja \<Rightarrow> sistema" where
  "sistema_con ws = \<lparr> cwd = ''/app'', ficheros = [''/app/archivos/test.xlsx'' \<mapsto> Some ws] \<rparr>"

definition hoja_de :: "sistema \<Rightarrow> hoja" where
  "hoja_de s = (case load_workbook s (ruta_de ''test.xlsx'') of Some (Some ws) \<Rightarrow> ws | _ \<Rightarrow> [])"

definition sistema_ejemplo :: sistema where
  "sistema_ejemplo = sistema_con []"

text \<open>The store after the record of the scenario was saved to the empty ledger.\<close>

definition sistema_con_una :: sistema where
  "sistema_con_una =
     snd (guardar_audiencias_excel [audiencia_ejemplo] ''test.xlsx'' sistema_ejemplo)"

definition hoja_con_una :: hoja where
  "hoja_con_una = hoja_de sistema_con_una"

text \<open>
  What a cell holds after a value was written to it: writing \<^verbatim>\<open>None\<close> keeps the earlier
  value. \<open>valor_escrito\<close> is the value of column \<open>c\<close> after a list of writes to one row.
\<close>

definition sobre :: "valor \<Rightarrow> valor \<Rightarrow> valor" where
  "sobre v previo = (if v = Vacio then previo else recortar v)"

definition valor_escrito :: "(nat \<times> valor) list \<Rightarrow> nat \<Rightarrow> valor \<Rightarrow> valor" where
  "valor_escrito es c previo = fold (\<lambda>cv x. if fst cv = c then sobre (snd cv) x else x) es previo"

text \<open>The test of the search for earlier totals rows.\<close>

definition es_fila_totales :: "hoja \<Rightarrow> nat \<Rightarrow> bool" where
  "es_fila_totales ws f =
     ((truthy (celda ws f 7) \<or> truthy (celda ws f 8))
      \<and> (startswith (py_str (o_vacio (celda ws f 7))) (tx ''TOTAL DE'')
           \<or> startswith (py_str (o_vacio (celda ws f 8))) (tx ''TOTAL DE'')))"

text \<open>The reason written to the slot \<open>i\<close> of a row: the empty string past the end of the list.\<close>

definition motivo_en :: "audiencia \<Rightarrow> nat \<Rightarrow> valor" where
  "motivo_en d i = (if i < length (motivos d) then motivos d ! i else Texto [])"

text \<open>
  A third record, not held, at the instant of the first one, and the list of the three.
\<close>

definition audiencia_tercera :: audiencia where
  "audiencia_tercera =
     \<lparr> radicado = Some (Texto (tx ''3'')), tipo_audiencia = Some (Texto (tx ''Otra'')),
       fecha = Some (Texto (tx ''25/7/2024'')), hora = Some (Texto (tx ''10:00'')),
       juzgado = Some (Texto (tx ''Juzgado 3'')), se_realizo = Some (Texto (tx ''NO'')),
       motivos = [Texto (tx ''Juez''), Texto [], Texto (tx ''Usuario'')], observaciones = None \<rparr>"

definition datos_ejemplo :: "audiencia list" where
  "datos_ejemplo = [audiencia_ejemplo, audiencia_con_blancos, audiencia_tercera]"

text \<open>
  A value as it comes back from the file after it was written to a cell, and a record as
  the reading loop returns it after it was written: every key present, every value as it
  comes back, the eight reason slots filled with the empty string where there is no
  reason, the notes \<^verbatim>\<open>None\<close> when they were empty or absent.
\<close>

definition guardado :: "valor \<Rightarrow> valor" where
  "guardado v = serializar (recortar v)"

definition leida :: "audiencia \<Rightarrow> audiencia" where
  "leida d =
     \<lparr> radicado = Some (guardado (dget (radicado d))),
       tipo_audiencia = Some (guardado (dget (tipo_audiencia d))),
       fecha = Some (guardado (dget (fecha d))),
       hora = Some (guardado (dget (hora d))),
       juzgado = Some (guardado (dget (juzgado d))),
       se_realizo = Some (dget (se_realizo d)),
       motivos = map (\<lambda>i. o_vacio (guardado (motivo_en d i))) [0..<8],
       observaciones = Some (guardado (dget_or (observaciones d) (Texto []))) \<rparr>"

text \<open>
  The values of a record that the file holds as they are: strings whose first 32767
  characters are characters that the library and the file format accept (no control
  character that the library refuses, no surrogate and no noncharacter). A sheet is
  well formed, as every sheet that was loaded from a file is, when no value in it has a
  character that the library refuses.
\<close>

definition fuera_de_xml :: "nat \<Rightarrow> bool" where
  "fuera_de_xml c = ((0xD800 \<le> c \<and> c \<le> 0xDFFF) \<or> c = 0xFFFE \<or> c = 0xFFFF \<or> 0x10FFFF < c)"

fun texto_llano :: "valor \<Rightarrow> bool" where
  "texto_llano Vacio = True"
| "texto_llano (Texto s) = (\<not> list_ex (\<lambda>c. ilegal c \<or> fuera_de_xml c) (take 32767 s))"
| "texto_llano (Entero i) = False"

definition almacenable :: "audiencia \<Rightarrow> bool" where
  "almacenable d =
     (texto_llano (dget (radicado d)) \<and> texto_llano (dget (fecha d))
      \<and> texto_llano (dget (hora d)) \<and> texto_llano (dget (juzgado d))
      \<and> texto_llano (dget (observaciones d)) \<and> list_all texto_llano (take 8 (motivos d)))"

definition hoja_legal :: "hoja \<Rightarrow> bool" where
  "hoja_legal ws = list_all (\<lambda>kv. valor_legal (snd kv)) ws"

text \<open>The library accepts every value that a data row receives from a record.\<close>

definition registro_legal :: "audiencia \<Rightarrow> bool" where
  "registro_legal d =
     (valor_legal (recortar (dget (radicado d))) \<and> valor_legal (recortar (dget (tipo_audiencia d)))
      \<and> valor_legal (recortar (dget (fecha d))) \<and> valor_legal (recortar (dget (hora d)))
      \<and> valor_legal (recortar (dget (juzgado d)))
      \<and> valor_legal (recortar (dget_or (observaciones d) (Texto [])))
      \<and> (\<forall>i < 8. valor_legal (recortar (motivo_en d i))))"

text \<open>
  A record that the validator leaves as it is, with one reason, and the store and the
  sheet after it was saved to the empty ledger.
\<close>

definition audiencia_canonica :: audiencia where
  "audiencia_canonica =
     \<lparr> radicado = Some (Texto (tx ''12345-ABC'')), tipo_audiencia = Some (Texto (tx ''Otra'')),
       fecha = Some (Texto (tx ''25/07/2024'')), hora = Some (Texto (tx ''10:00'')),
       juzgado = Some (Texto (tx ''Juzgado 1'')), se_realizo = Some (Texto (tx ''SI'')),
       motivos = [Texto (tx ''Acuerdo'')], observaciones = Some (Texto (tx ''ok'')) \<rparr>"

definition sistema_con_canonica :: sistema where
  "sistema_con_canonica =
     snd (guardar_audiencias_excel [audiencia_canonica] ''test.xlsx'' sistema_ejemplo)"

definition hoja_con_canonica :: hoja where
  "hoja_con_canonica = hoja_de sistema_con_canonica"

text \<open>A ledger whose only cell is a signature line in row 300, the ceiling.\<close>

definition hoja_con_fila_300 :: hoja where
  "hoja_con_fila_300 = [((300, 1), Texto FIRMA)]"

definition sistema_con_fila_300 :: sistema where
  "sistema_con_fila_300 = sistema_con hoja_con_fila_300"

text \<open>
  Variants of that record: a court with a carriage return in it, a court with a control
  character (U+0001), and a case number that is the integer \<open>2^53 + 1\<close>.
\<close>

definition audiencia_con_retorno :: audiencia where
  "audiencia_con_retorno = audiencia_canonica\<lparr>juzgado := Some (Texto [0x61, 0x0D, 0x62])\<rparr>"

definition audiencia_con_control :: audiencia where
  "audiencia_con_control = audiencia_canonica\<lparr>juzgado := Some (Texto (tx ''Juzgado'' @ [0x01]))\<rparr>"

definition audiencia_con_entero :: audiencia where
  "audiencia_con_entero = audiencia_canonica\<lparr>radicado := Some (Entero 9007199254740993)\<rparr>"

text \<open>A ledger whose only cell is a case number in row 301, beyond the ceiling.\<close>

definition hoja_con_fila_301 :: hoja where
  "hoja_con_fila_301 = [((301, 2), Texto (tx ''viejo''))]"

text \<open>
  A ledger with three rows at the ceiling and beyond it, each with a case number, a date
  and a time: the years 2030, 2031 and 2032.
\<close>

definition hoja_con_filas_viejas :: hoja where
  "hoja_con_filas_viejas =
     [((300, 2), Texto (tx ''A'')), ((300, 4), Texto (tx ''01/01/2030'')),
      ((300, 5), Texto (tx ''10:00'')),
      ((301, 2), Texto (tx ''B'')), ((301, 4), Texto (tx ''01/01/2031'')),
      ((301, 5), Texto (tx ''10:00'')),
      ((302, 2), Texto (tx ''C'')), ((302, 4), Texto (tx ''01/01/2032'')),
      ((302, 5), Texto (tx ''10:00''))]"

text \<open>
  A ledger whose only cell is in the column of the first reason, in row 300, and a record
  that was not held and whose only reason is \<^verbatim>\<open>None\<close>.
\<close>

definition hoja_con_motivo_viejo :: hoja where
  "hoja_con_motivo_viejo = [((300, 9), Texto (tx ''viejo''))]"

definition audiencia_sin_motivo :: audiencia where
  "audiencia_sin_motivo =
     \<lparr> radicado = Some (Texto (tx ''7'')), tipo_audiencia = Some (Texto (tx ''Otra'')),
       fecha = Some (Texto (tx ''25/07/2024'')), hora = Some (Texto (tx ''10:00'')),
       juzgado = Some (Texto (tx ''Juzgado 1'')), se_realizo = Some (Texto (tx ''NO'')),
       motivos = [Vacio], observaciones = Some (Texto []) \<rparr>"

section \<open>The validator\<close>

lemma primer_faltante_None:
  "primer_faltante cs d = None \<longleftrightarrow> (\<forall>f \<in> set (map snd cs). truthy (dget (f d)))"
  by (induction cs d rule: primer_faltante.induct) auto

lemma primer_faltante_obligatorios:
  "primer_faltante obligatorios d = None \<longleftrightarrow> campos_presentes d"
  by (simp add: primer_faltante_None obligatorios_def campos_presentes_def)

text \<open>
  Claim C9, as amended. \<^verbatim>\<open>validar_campos_audiencia\<close> succeeds exactly when the six
  required fields (radicado, tipo_audiencia, fecha, hora, juzgado, se_realizo) are present
  and not empty, the label with the white space around it removed is one of the eighteen
  allowed labels, and the flag, with the white space around it removed and in upper case,
  is \<^verbatim>\<open>SI\<close> or \<^verbatim>\<open>NO\<close>; it then returns the record with the flag trimmed and in upper
  case and the label trimmed. In every other case it fails with a validation error.
\<close>

theorem validar_campos_audiencia_contrato:
  "(if truthy (dget (radicado d)) \<and> truthy (dget (tipo_audiencia d))
       \<and> truthy (dget (fecha d)) \<and> truthy (dget (hora d))
       \<and> truthy (dget (juzgado d)) \<and> truthy (dget (se_realizo d))
       \<and> strip (py_str (dget (tipo_audiencia d))) \<in> set TIPOS_AUDIENCIA_VALIDOS
       \<and> upper (strip (py_str (dget (se_realizo d)))) \<in> {tx ''SI'', tx ''NO''}
    then validar_campos_audiencia d =
           Inr (d\<lparr>se_realizo := Some (Texto (upper (strip (py_str (dget (se_realizo d)))))),
                  tipo_audiencia := Some (Texto (strip (py_str (dget (tipo_audiencia d)))))\<rparr>)
    else \<exists>e. validar_campos_audiencia d = Inl e \<and> es_validacion e)"
proof (cases "primer_faltante obligatorios d")
  case None
  then have "campos_presentes d"
    by (simp add: primer_faltante_obligatorios)
  with None show ?thesis
    by (auto simp: validar_campos_audiencia_def Let_def campos_presentes_def)
next
  case (Some campo)
  then have "\<not> campos_presentes d"
    using primer_faltante_obligatorios [of d] by simp
  with Some show ?thesis
    by (auto simp: validar_campos_audiencia_def campos_presentes_def)
qed

text \<open>
  The contract at a record whose label ends with a no-break space and whose flag is
  written with an ideographic space, a long s and a dotless i: Python trims the two
  spaces and the upper case of the two letters is \<^verbatim>\<open>SI\<close>, so the record passes.
\<close>

theorem validar_campos_audiencia_contrato_witness:
  "validar_campos_audiencia audiencia_unicode =
     Inr (audiencia_unicode\<lparr>se_realizo := Some (Texto (tx ''SI'')),
                              tipo_audiencia := Some (Texto (tx ''Otra''))\<rparr>)"
proof -
  have c: "truthy (dget (radicado audiencia_unicode))"
    "truthy (dget (tipo_audiencia audiencia_unicode))"
    "truthy (dget (fecha audiencia_unicode))" "truthy (dget (hora audiencia_unicode))"
    "truthy (dget (juzgado audiencia_unicode))" "truthy (dget (se_realizo audiencia_unicode))"
    by (simp_all add: audiencia_unicode_def dget_def tx_def)
  have t: "strip (py_str (dget (tipo_audiencia audiencia_unicode))) = tx ''Otra''"
    by code_simp
  have m: "tx ''Otra'' \<in> set TIPOS_AUDIENCIA_VALIDOS"
    by (simp add: TIPOS_AUDIENCIA_VALIDOS_def)
  have u: "upper (strip (py_str (dget (se_realizo audiencia_unicode)))) = tx ''SI''"
    by code_simp
  show ?thesis
    using validar_campos_audiencia_contrato [of audiencia_unicode] c m
    unfolding t u by simp
qed

text \<open>
  Claim C9 as it is written fails: a label that is not in the allowed set and a flag that
  is not \<^verbatim>\<open>SI\<close> or \<^verbatim>\<open>NO\<close> in any case of letters, both because of the blanks around
  them, pass the validation.
\<close>

theorem validar_campos_audiencia_counterexample:
  "py_str (dget (tipo_audiencia audiencia_con_blancos)) \<notin> set TIPOS_AUDIENCIA_VALIDOS
   \<and> upper (py_str (dget (se_realizo audiencia_con_blancos))) \<notin> {tx ''SI'', tx ''NO''}
   \<and> validar_campos_audiencia audiencia_con_blancos =
       Inr (audiencia_con_blancos\<lparr>se_realizo := Some (Texto (tx ''NO'')),
                                  tipo_audiencia := Some (Texto (tx ''Otra''))\<rparr>)"
  by code_simp

section \<open>Validation of the whole list and the capacity checks\<close>

lemma validar_todas_Inr:
  "\<forall>d \<in> set datos. valida d \<Longrightarrow> validar_todas datos = Inr (map normalizada datos)"
  by (induction datos) (auto simp: valida_def normalizada_def split: sum.splits)

lemma parse_fecha_hora_error: "parse_fecha_hora d = Inl e \<Longrightarrow> es_validacion e"
  by (auto simp: parse_fecha_hora_def Let_def split: if_splits valor.splits option.splits)

lemma validar_campos_audiencia_error:
  assumes "validar_campos_audiencia d = Inl e"
  shows "es_validacion e"
proof (cases "primer_faltante obligatorios d")
  case None
  with assms show ?thesis
    by (auto simp: validar_campos_audiencia_def Let_def split: if_splits)
next
  case (Some campo)
  with assms show ?thesis
    by (auto simp: validar_campos_audiencia_def)
qed

lemma validar_todas_Inl:
  "\<exists>d \<in> set datos. \<not> valida d \<Longrightarrow> \<exists>e. validar_todas datos = Inl e \<and> es_validacion e"
proof (induction datos)
  case Nil
  then show ?case by simp
next
  case (Cons d ds)
  show ?case
  proof (cases "valida d")
    case True
    with Cons.prems have "\<exists>d \<in> set ds. \<not> valida d" by simp
    from Cons.IH [OF this] True show ?thesis
      by (auto simp: valida_def split: sum.splits)
  next
    case False
    then show ?thesis
      by (auto simp: valida_def split: sum.splits
          dest: validar_campos_audiencia_error parse_fecha_hora_error)
  qed
qed

lemma claves_normalizadas:
  "\<forall>d \<in> set datos. valida d
     \<Longrightarrow> claves (map normalizada datos) = Inr (map instante (map normalizada datos))"
  by (induction datos) (auto simp: valida_def normalizada_def instante_def split: sum.splits)

lemma escribir_hoja_capacidad:
  "MAX_FILA_PERMITIDA \<le> FILA_ENCABEZADO + length ds + 1 + 1
     \<Longrightarrow> escribir_hoja ws ds =
           Inl (if MAX_FILA_PERMITIDA < FILA_ENCABEZADO + length ds + 1
                then DemasiadasAudiencias else SinEspacioMotivos)"
  by (auto simp: escribir_hoja_def Let_def)

lemma length_ordenadas [simp]: "length (ordenadas ds) = length ds"
  by (simp add: ordenadas_def sorted_reverse_def)


lemma guardar_validas:
  assumes "validar_no_es_plantilla s n = Inr ()"
    and "load_workbook s (ruta_de n) = Some (Some ws0)"
    and "\<forall>d \<in> set datos. valida d"
  shows "guardar_audiencias_excel datos n s =
           (case escribir_hoja (borrar_datos_previos ws0) (ordenadas (map normalizada datos)) of
              Inl e \<Rightarrow> (Inl e, s)
            | Inr ws' \<Rightarrow>
                (case wb_save ws' of
                   Inl e \<Rightarrow> (Inl e, s)
                 | Inr guardada \<Rightarrow> (Inr (), escribir_fichero s (ruta_de n) (Some guardada))))"
  using assms
  by (simp add: guardar_audiencias_excel_def ruta_de_def [symmetric] validar_todas_Inr
      claves_normalizadas ordenadas_def Let_def)


lemma plantilla_con: "validar_no_es_plantilla (sistema_con ws) ''test.xlsx'' = Inr ()"
  by code_simp

lemma load_con: "load_workbook (sistema_con ws) (ruta_de ''test.xlsx'') = Some (Some ws)"
  by code_simp

lemma plantilla_ejemplo: "validar_no_es_plantilla sistema_ejemplo ''test.xlsx'' = Inr ()"
  by (simp add: sistema_ejemplo_def plantilla_con)

lemma load_ejemplo: "load_workbook sistema_ejemplo (ruta_de ''test.xlsx'') = Some (Some [])"
  by (simp add: sistema_ejemplo_def load_con)

text \<open>
  Claim C5. When some record of the list is not valid, \<^verbatim>\<open>guardar_audiencias_excel\<close>
  fails and the store is exactly as it was; when the ledger could be opened, the error is
  a validation error.
\<close>

theorem guardar_audiencias_excel_atomico:
  assumes "\<exists>d \<in> set datos. \<not> valida d"
  shows "\<exists>e. guardar_audiencias_excel datos n s = (Inl e, s)
            \<and> (validar_no_es_plantilla s n = Inr ()
                 \<and> (\<exists>ws. load_workbook s (ruta_de n) = Some (Some ws))
               \<longrightarrow> es_validacion e)"
proof -
  from validar_todas_Inl [OF assms]
  obtain e where "validar_todas datos = Inl e" "es_validacion e"
    by blast
  then show ?thesis
    by (auto simp: guardar_audiencias_excel_def ruta_de_def Let_def
        split: sum.splits option.splits)
qed

theorem guardar_audiencias_excel_atomico_witness:
  "\<exists>e. guardar_audiencias_excel
          [audiencia_ejemplo, audiencia_ejemplo\<lparr>hora := Some (Texto (tx ''25:00''))\<rparr>]
          ''test.xlsx'' sistema_ejemplo = (Inl e, sistema_ejemplo) \<and> es_validacion e"
proof -
  have a: "\<exists>d \<in> set [audiencia_ejemplo, audiencia_ejemplo\<lparr>hora := Some (Texto (tx ''25:00''))\<rparr>].
             \<not> valida d"
    by code_simp
  from guardar_audiencias_excel_atomico [OF a, of "''test.xlsx''" sistema_ejemplo]
    plantilla_ejemplo load_ejemplo
  show ?thesis by simp
qed



section \<open>Appending a duplicate\<close>

lemma load_con_una: "load_workbook sistema_con_una (ruta_de ''test.xlsx'') = Some (Some hoja_con_una)"
  by code_simp

text \<open>
  Claim C4. When the radicado of the new record is the radicado of a record that the
  reading loop finds in the ledger, \<^verbatim>\<open>guardar_una_audiencia_excel\<close> fails with the
  duplicate error, a validation error, and the store is exactly as it was.
\<close>

theorem guardar_una_audiencia_excel_duplicado:
  assumes "load_workbook s (ruta_de n) = Some (Some ws)"
    and "a \<in> set (leer_audiencias ws)"
    and "radicado a = radicado d"
  shows "guardar_una_audiencia_excel d n s =
           (Inl (RadicadoDuplicado (strip (py_str (dget_or (radicado d) (Texto []))))), s)
         \<and> es_validacion (RadicadoDuplicado (strip (py_str (dget_or (radicado d) (Texto [])))))"
proof -
  from assms(2,3)
  have "list_ex (\<lambda>a. strip (py_str (dget_or (radicado a) (Texto [])))
                      = strip (py_str (dget_or (radicado d) (Texto []))))
          (leer_audiencias ws)"
    unfolding list_ex_iff by (intro bexI [of _ a]) simp_all
  with assms(1) show ?thesis
    by (simp add: guardar_una_audiencia_excel_def ruta_de_def [symmetric] Let_def)
qed

theorem guardar_una_audiencia_excel_duplicado_witness:
  "guardar_una_audiencia_excel audiencia_ejemplo ''test.xlsx'' sistema_con_una =
     (Inl (RadicadoDuplicado (tx ''12345-ABC'')), sistema_con_una)"
proof -
  have a: "registro_de_fila hoja_con_una 11 \<in> set (leer_audiencias hoja_con_una)"
    by code_simp
  have b: "radicado (registro_de_fila hoja_con_una 11) = radicado audiencia_ejemplo"
    by code_simp
  have c: "strip (py_str (dget_or (radicado audiencia_ejemplo) (Texto []))) = tx ''12345-ABC''"
    by code_simp
  from guardar_una_audiencia_excel_duplicado [OF load_con_una a b]
  show ?thesis unfolding c by simp
qed

section \<open>Two exports on one day\<close>

lemma escribir_fichero_dos:
  "escribir_fichero (escribir_fichero s r l) r l' = escribir_fichero s r l'"
  by (simp add: escribir_fichero_def)

lemma load_escribir_fichero:
  "load_workbook (escribir_fichero s r l) r' =
     (if abspath (cwd s) r' = abspath (cwd s) r then Some l else load_workbook s r')"
  by (simp add: load_workbook_def escribir_fichero_def)

lemma cwd_escribir_fichero [simp]: "cwd (escribir_fichero s r l) = cwd s"
  by (simp add: escribir_fichero_def)

text \<open>
  Claim C10. The path that a successful export returns is a function of the name and the
  date alone. The export does not look at what the destination holds: run again on the
  same day, on the store that the first export left or on one where the destination holds
  any other workbook, it succeeds again, returns the same path and leaves the freshly
  signed copy there.
\<close>

theorem exportar_con_firma_mismo_dia:
  assumes "exportar_con_firma n hoy s = (Inr r, s1)"
  shows "r = ruta_destino n hoy
         \<and> load_workbook s1 r \<noteq> None
         \<and> exportar_con_firma n hoy s1 = (Inr r, s1)
         \<and> (\<forall>l. exportar_con_firma n hoy (escribir_fichero s r l) = (Inr r, s1))"
proof -
  let ?o = "os_path_join ARCHIVOS_DIR (nombre_xlsx n)"
  let ?d = "ruta_destino n hoy"
  from assms obtain ws g where
    o: "load_workbook s ?o = Some (Some ws)" and
    ne: "abspath (cwd s) ?o \<noteq> abspath (cwd s) ?d" and
    g: "wb_save (firmar ws) = Inr g" and
    r: "r = ?d" and
    s1: "s1 = escribir_fichero (escribir_fichero s ?d (Some ws)) ?d (Some g)"
    by (auto simp: exportar_con_firma_def Let_def split: option.splits if_splits sum.splits)
  have s1': "s1 = escribir_fichero s ?d (Some g)"
    by (simp add: s1 escribir_fichero_dos)
  have cw: "cwd s1 = cwd s" by (simp add: s1')
  have ex: "exportar_con_firma n hoy (escribir_fichero s ?d l) = (Inr ?d, s1)" for l
    using o ne g
    by (simp add: exportar_con_firma_def Let_def load_escribir_fichero escribir_fichero_dos s1')
  have "exportar_con_firma n hoy s1 = (Inr ?d, s1)"
    using ex [of "Some g"] by (simp add: s1' escribir_fichero_dos)
  moreover have "load_workbook s1 ?d \<noteq> None"
    by (simp add: s1' load_escribir_fichero)
  ultimately show ?thesis using r ex by simp
qed

theorem exportar_con_firma_mismo_dia_witness:
  "exportar_con_firma ''test'' (2024, 7, 25)
       (snd (exportar_con_firma ''test'' (2024, 7, 25) sistema_con_una))
     = (Inr ''archivos/test_exportado_20240725.xlsx'',
        snd (exportar_con_firma ''test'' (2024, 7, 25) sistema_con_una))"
proof -
  have a: "fst (exportar_con_firma ''test'' (2024, 7, 25) sistema_con_una)
             = Inr ''archivos/test_exportado_20240725.xlsx''"
    by code_simp
  have b: "exportar_con_firma ''test'' (2024, 7, 25) sistema_con_una
             = (Inr ''archivos/test_exportado_20240725.xlsx'',
                snd (exportar_con_firma ''test'' (2024, 7, 25) sistema_con_una))"
    using a by (metis prod.collapse)
  from exportar_con_firma_mismo_dia [OF b] show ?thesis by simp
qed


section \<open>The cells of a sheet after each step\<close>

lemma map_of_filas_menores:
  fixes ws :: hoja
  shows "map_of (filter (\<lambda>kv. fst (fst kv) < idx) ws) (r, c) =
           (if r < idx then map_of ws (r, c) else None)"
  by (induction ws) auto

lemma map_of_filas_subidas:
  fixes ws :: hoja
  shows "map_of (map (\<lambda>kv. ((fst (fst kv) - n, snd (fst kv)), snd kv))
                   (filter (\<lambda>kv. idx + n \<le> fst (fst kv)) ws)) (r, c) =
           (if idx \<le> r then map_of ws (r + n, c) else None)"
  by (induction ws) auto

lemma celda_delete_rows:
  "celda (delete_rows ws idx n) r c = (if r < idx then celda ws r c else celda ws (r + n) c)"
  by (simp add: celda_def delete_rows_def map_add_def map_of_filas_menores
      map_of_filas_subidas split: option.splits)


lemma wb_save_legal:
  "hoja_legal ws \<Longrightarrow> wb_save ws = Inr (map (\<lambda>kv. (fst kv, serializar (snd kv))) ws)"
  by (simp add: wb_save_def hoja_legal_def list_ex_iff list_all_iff)

lemma celda_wb_save:
  assumes "wb_save ws = Inr guardada"
  shows "celda guardada r c = serializar (celda ws r c)"
proof -
  have "map_of (map (\<lambda>kv. (fst kv, serializar (snd kv))) ws) k =
          map_option serializar (map_of ws k)" for k
    by (induction ws) auto
  with assms show ?thesis
    by (auto simp: wb_save_def celda_def split: option.splits if_splits)
qed

lemma celda_merge_cells:
  "celda (merge_cells ws r c1 c2) r' c' =
     (if r' = r \<and> c1 < c' \<and> c' \<le> c2 then Vacio else celda ws r' c')"
proof -
  have "map_of (map (\<lambda>c. ((r, c), Vacio)) cs) (r', c') =
          (if r' = r \<and> c' \<in> set cs then Some Vacio else None)" for cs
    by (induction cs) auto
  then show ?thesis
    by (auto simp: celda_def merge_cells_def map_add_def split: option.splits)
qed

lemma celda_escribir_celdas:
  "celda (escribir_celdas ws fila es) r c =
     (if r = fila then valor_escrito es c (celda ws r c) else celda ws r c)"
  unfolding escribir_celdas_def valor_escrito_def
  by (induction es arbitrary: ws) (auto simp: celda_ws_cell sobre_def)


lemma celda_copiar_estilos_fila:
  "celda (copiar_estilos_fila ws fo fd) r c = celda ws r c"
proof -
  have "celda (fold (\<lambda>col ws. ws_cell (ws_cell ws fo col Vacio) fd col Vacio) cols ws) r c
          = celda ws r c" for cols
    by (induction cols arbitrary: ws) (auto simp: celda_ws_cell)
  then show ?thesis by (simp add: copiar_estilos_fila_def)
qed

lemma celda_escribir_fila:
  "celda (escribir_fila ws idx d) r c =
     (if r = FILA_ENCABEZADO + idx then valor_escrito (escrituras_fila idx d) c (celda ws r c)
      else celda ws r c)"
  by (simp add: escribir_fila_def Let_def celda_copiar_estilos_fila celda_escribir_celdas)

lemma celda_escribir_datos:
  "celda (escribir_datos ws idx ds) r c =
     (if FILA_ENCABEZADO + idx \<le> r \<and> r < FILA_ENCABEZADO + idx + length ds
      then valor_escrito (escrituras_fila (r - FILA_ENCABEZADO) (ds ! (r - FILA_ENCABEZADO - idx)))
             c (celda ws r c)
      else celda ws r c)"
proof (induction ds arbitrary: ws idx r)
  case Nil
  then show ?case by auto
next
  case (Cons d ds)
  show ?case
  proof (cases "r = FILA_ENCABEZADO + idx")
    case True
    have "celda (escribir_datos ws idx (d # ds)) r c = celda (escribir_fila ws idx d) r c"
      using True by (simp add: Cons.IH)
    with True show ?thesis
      by (simp add: celda_escribir_fila)
  next
    case False
    have "celda (escribir_datos ws idx (d # ds)) r c =
            (if FILA_ENCABEZADO + Suc idx \<le> r \<and> r < FILA_ENCABEZADO + Suc idx + length ds
             then valor_escrito
                    (escrituras_fila (r - FILA_ENCABEZADO) (ds ! (r - FILA_ENCABEZADO - Suc idx)))
                    c (celda ws r c)
             else celda ws r c)"
      using False by (simp add: Cons.IH celda_escribir_fila)
    moreover have "(d # ds) ! (r - FILA_ENCABEZADO - idx) = ds ! (r - FILA_ENCABEZADO - Suc idx)"
      if "FILA_ENCABEZADO + Suc idx \<le> r"
    proof -
      from that have "r - FILA_ENCABEZADO - idx = Suc (r - FILA_ENCABEZADO - Suc idx)"
        by arith
      then show ?thesis by simp
    qed
    ultimately show ?thesis using False by auto
  qed
qed

lemma buscar_totales_paso:
  "buscar_totales ws f =
     (if es_fila_totales ws f then f # buscar_totales ws (Suc f) else [])"
  by (subst buscar_totales.simps) (simp add: es_fila_totales_def Let_def)

lemma buscar_totales_desde: "f \<in> set (buscar_totales ws f0) \<Longrightarrow> f0 \<le> f"
proof (induction ws f0 rule: buscar_totales.induct)
  case (1 ws f0)
  show ?case
  proof (cases "es_fila_totales ws f0")
    case True
    with "1.prems" have "f = f0 \<or> f \<in> set (buscar_totales ws (f0 + 1))"
      by (subst (asm) buscar_totales_paso) simp
    then show ?thesis
    proof
      assume "f = f0"
      then show ?thesis by simp
    next
      assume "f \<in> set (buscar_totales ws (f0 + 1))"
      with True have "f0 + 1 \<le> f"
        by (intro "1.IH") (auto simp: es_fila_totales_def)
      then show ?thesis by simp
    qed
  next
    case False
    with "1.prems" show ?thesis
      by (subst (asm) buscar_totales_paso) simp
  qed
qed

lemma celda_borrar_filas:
  "\<forall>f \<in> set fs. r < f \<Longrightarrow> celda (fold (\<lambda>f ws. delete_rows ws f 1) fs ws) r c = celda ws r c"
  by (induction fs arbitrary: ws) (auto simp: celda_delete_rows)

lemma celda_eliminar_totales_previos:
  "r < f0 \<Longrightarrow> celda (eliminar_totales_previos ws f0) r c = celda ws r c"
  unfolding eliminar_totales_previos_def
  by (rule celda_borrar_filas) (auto dest: buscar_totales_desde)

lemma upt_0_8: "[0..<8] = [0, 1, 2, 3, 4, 5, 6, 7]"
  by code_simp


lemma recortar_X [simp]: "recortar (Texto (tx ''X'')) = Texto (tx ''X'')"
  by code_simp

lemma recortar_nada [simp]: "recortar (Texto []) = Texto []"
  by (simp add: recortar.simps)

lemma tx_SI_NO [simp]: "tx ''SI'' \<noteq> tx ''NO''" "tx ''NO'' \<noteq> tx ''SI''"
  by (simp_all add: tx_def)

lemma recortar_Vacio [simp]: "recortar v = Vacio \<longleftrightarrow> v = Vacio"
  by (cases v) (simp_all add: recortar.simps)

lemma escrituras_fila_lista:
  "escrituras_fila idx d =
     [(1, Entero (int idx)), (2, dget (radicado d)), (3, dget (tipo_audiencia d)),
      (4, dget (fecha d)), (5, dget (hora d)), (6, dget (juzgado d)),
      (7, Texto []), (8, Texto [])]
     @ (if dget (se_realizo d) = Texto (tx ''SI'') then [(7, Texto (tx ''X''))]
        else if dget (se_realizo d) = Texto (tx ''NO'') then [(8, Texto (tx ''X''))] else [])
     @ [(17, dget_or (observaciones d) (Texto [])),
        (9, motivo_en d 0), (9, motivo_en d 0), (10, motivo_en d 1), (10, motivo_en d 1),
        (11, motivo_en d 2), (11, motivo_en d 2), (12, motivo_en d 3), (12, motivo_en d 3),
        (13, motivo_en d 4), (13, motivo_en d 4), (14, motivo_en d 5), (14, motivo_en d 5),
        (15, motivo_en d 6), (15, motivo_en d 6), (16, motivo_en d 7), (16, motivo_en d 7)]"
  by (simp add: escrituras_fila_def columnas upt_0_8 motivo_en_def Let_def)

lemma valor_escrito_1 [simp]: "valor_escrito (escrituras_fila idx d) 1 p = Entero (int idx)"
  by (simp add: escrituras_fila_lista valor_escrito_def sobre_def)

lemma valor_escrito_2 [simp]:
  "valor_escrito (escrituras_fila idx d) 2 p = sobre (dget (radicado d)) p"
  by (simp add: escrituras_fila_lista valor_escrito_def)

lemma valor_escrito_3 [simp]:
  "valor_escrito (escrituras_fila idx d) 3 p = sobre (dget (tipo_audiencia d)) p"
  by (simp add: escrituras_fila_lista valor_escrito_def)

lemma valor_escrito_4 [simp]:
  "valor_escrito (escrituras_fila idx d) 4 p = sobre (dget (fecha d)) p"
  by (simp add: escrituras_fila_lista valor_escrito_def)

lemma valor_escrito_5 [simp]:
  "valor_escrito (escrituras_fila idx d) 5 p = sobre (dget (hora d)) p"
  by (simp add: escrituras_fila_lista valor_escrito_def)

lemma valor_escrito_6 [simp]:
  "valor_escrito (escrituras_fila idx d) 6 p = sobre (dget (juzgado d)) p"
  by (simp add: escrituras_fila_lista valor_escrito_def)

lemma valor_escrito_7 [simp]:
  "valor_escrito (escrituras_fila idx d) 7 p =
     (if dget (se_realizo d) = Texto (tx ''SI'') then Texto (tx ''X'') else Texto [])"
  by (simp add: escrituras_fila_lista valor_escrito_def sobre_def)

lemma valor_escrito_8 [simp]:
  "valor_escrito (escrituras_fila idx d) 8 p =
     (if dget (se_realizo d) = Texto (tx ''NO'') then Texto (tx ''X'') else Texto [])"
  by (simp add: escrituras_fila_lista valor_escrito_def sobre_def)

lemma valor_escrito_17 [simp]:
  "valor_escrito (escrituras_fila idx d) 17 p = sobre (dget_or (observaciones d) (Texto [])) p"
  by (simp add: escrituras_fila_lista valor_escrito_def)

lemma sobre_sobre [simp]: "sobre v (sobre v p) = sobre v p"
  by (simp add: sobre_def)

lemma valor_escrito_motivo:
  assumes "i < 8"
  shows "valor_escrito (escrituras_fila idx d) (9 + i) p = sobre (motivo_en d i) p"
proof -
  from assms have "i \<in> set [0..<8]" by simp
  then have "i = 0 \<or> i = 1 \<or> i = 2 \<or> i = 3 \<or> i = 4 \<or> i = 5 \<or> i = 6 \<or> i = 7"
    by (simp only: upt_0_8 list.set insert_iff empty_iff simp_thms)
  then show ?thesis
    by (elim disjE) (simp_all add: escrituras_fila_lista valor_escrito_def)
qed

lemma celda_borrar_datos_previos:
  assumes "max_row ws < MAX_FILA_PERMITIDA" "FILA_ENCABEZADO < r"
  shows "celda (borrar_datos_previos ws) r c = Vacio"
proof (cases "FILA_ENCABEZADO < max_row ws")
  case True
  with assms have "celda (borrar_datos_previos ws) r c = celda ws (r + (max_row ws - FILA_ENCABEZADO)) c"
    by (simp add: borrar_datos_previos_def Let_def celda_delete_rows min_def MAX_FILA_PERMITIDA_def)
  also from True assms have "\<dots> = Vacio"
    by (intro celda_fuera_de_max_row) simp
  finally show ?thesis .
next
  case False
  with assms show ?thesis
    by (simp add: borrar_datos_previos_def Let_def celda_fuera_de_max_row)
qed

lemma leer_desde_rango:
  assumes "\<forall>r. a \<le> r \<and> r < b \<longrightarrow> truthy (celda ws r COL_RADICADO)"
    and "\<not> truthy (celda ws b COL_RADICADO)" and "a \<le> b"
  shows "leer_desde ws a = map (registro_de_fila ws) [a..<b]"
  using assms
proof (induction "b - a" arbitrary: a)
  case 0
  then show ?case by (subst leer_desde.simps) simp
next
  case (Suc k)
  then have "a < b" by simp
  with Suc.prems have t: "truthy (celda ws a COL_RADICADO)" by simp
  have "leer_desde ws (a + 1) = map (registro_de_fila ws) [a + 1..<b]"
    using Suc by (intro Suc.hyps) auto
  with t \<open>a < b\<close> show ?case
    by (subst leer_desde.simps) (simp add: upt_conv_Cons)
qed

section \<open>The order of the rows and the valid records\<close>

lemma map_snd_insort_key:
  assumes "\<forall>z \<in> set zs. fst z = f (snd z)"
  shows "map snd (insort_key fst (f x, x) zs) = insort_key f x (map snd zs)"
  using assms by (induction zs) auto

lemma map_snd_sort_key_zip:
  "map snd (sort_key fst (zip (map f xs) xs)) = sort_key f xs"
proof (induction xs)
  case Nil
  then show ?case by simp
next
  case (Cons x xs)
  have "\<forall>z \<in> set (sort_key fst (zip (map f xs) xs)). fst z = f (snd z)"
    by (auto simp: set_zip)
  from map_snd_insort_key [OF this, of x] Cons.IH show ?case
    by (simp add: sort_key_def)
qed

lemma ordenadas_sorted_reverse: "ordenadas ds = sorted_reverse instante ds"
proof -
  have "rev (zip (map instante ds) ds) = zip (map instante (rev ds)) (rev ds)"
    by (simp add: zip_rev [symmetric] rev_map)
  then have "ordenadas ds = rev (map snd (sort_key fst (zip (map instante (rev ds)) (rev ds))))"
    by (simp add: ordenadas_def sorted_reverse_def rev_map)
  then show ?thesis
    by (simp only: map_snd_sort_key_zip sorted_reverse_def)
qed

lemma ordenadas_estable:
  "filter (\<lambda>d. instante d = t) (ordenadas ds) = filter (\<lambda>d. instante d = t) ds"
  by (simp add: ordenadas_sorted_reverse sorted_reverse_def rev_filter [symmetric] sort_key_stable)

lemma ordenadas_decreciente:
  "sorted_wrt (\<lambda>a b. b \<le> a) (map instante (ordenadas ds))"
proof -
  have "sorted (map instante (sort_key instante (rev ds)))"
    by (rule sorted_sort_key)
  then have "sorted_wrt (\<lambda>a b. b \<le> a) (rev (map instante (sort_key instante (rev ds))))"
    by (simp add: sorted_wrt_rev)
  then show ?thesis
    by (simp add: ordenadas_sorted_reverse sorted_reverse_def rev_map)
qed

lemma set_ordenadas [simp]: "set (ordenadas ds) = set ds"
  by (simp add: ordenadas_sorted_reverse sorted_reverse_def)

lemma validar_campos_audiencia_Inr:
  assumes "validar_campos_audiencia d = Inr d'"
  shows "campos_presentes d
         \<and> strip (py_str (dget (tipo_audiencia d))) \<in> set TIPOS_AUDIENCIA_VALIDOS
         \<and> upper (strip (py_str (dget (se_realizo d)))) \<in> {tx ''SI'', tx ''NO''}
         \<and> d' = d\<lparr>se_realizo := Some (Texto (upper (strip (py_str (dget (se_realizo d)))))),
                   tipo_audiencia := Some (Texto (strip (py_str (dget (tipo_audiencia d)))))\<rparr>"
proof (cases "primer_faltante obligatorios d")
  case None
  then have "campos_presentes d"
    by (simp add: primer_faltante_obligatorios)
  with None assms show ?thesis
    by (auto simp: validar_campos_audiencia_def Let_def split: if_splits)
next
  case (Some campo)
  with assms show ?thesis
    by (simp add: validar_campos_audiencia_def)
qed

text \<open>What is known of a valid record once it is normalised.\<close>

lemma parse_fecha_hora_Inr:
  assumes "parse_fecha_hora d = Inr k"
  shows "\<exists>f h. dget (fecha d) = Texto f \<and> f \<noteq> [] \<and> dget (hora d) = Texto h \<and> h \<noteq> []"
  using assms
  by (auto simp: parse_fecha_hora_def Let_def split: if_splits valor.splits option.splits)

lemma valida_normalizada:
  assumes "valida d"
  shows "truthy (dget (radicado d))"
    and "dget (tipo_audiencia (normalizada d)) \<in> Texto ` set TIPOS_AUDIENCIA_VALIDOS"
    and "dget (se_realizo (normalizada d)) = Texto (tx ''SI'')
         \<or> dget (se_realizo (normalizada d)) = Texto (tx ''NO'')"
    and "motivos (normalizada d) = motivos d"
    and "observaciones (normalizada d) = observaciones d"
    and "radicado (normalizada d) = radicado d"
    and "fecha (normalizada d) = fecha d"
    and "hora (normalizada d) = hora d"
    and "juzgado (normalizada d) = juzgado d"
    and "parse_fecha_hora (normalizada d) = Inr (instante (normalizada d))"
proof -
  from assms obtain d' k where v: "validar_campos_audiencia d = Inr d'"
    and p: "parse_fecha_hora d' = Inr k"
    by (auto simp: valida_def split: sum.splits)
  then have n: "normalizada d = d'" by (simp add: normalizada_def)
  note c = validar_campos_audiencia_Inr [OF v]
  from c have cp: "campos_presentes d"
    and d': "d' = d\<lparr>se_realizo := Some (Texto (upper (strip (py_str (dget (se_realizo d)))))),
                   tipo_audiencia := Some (Texto (strip (py_str (dget (tipo_audiencia d)))))\<rparr>"
    by simp_all
  from cp show "truthy (dget (radicado d))"
    by (simp add: campos_presentes_def)
  from c show "dget (tipo_audiencia (normalizada d)) \<in> Texto ` set TIPOS_AUDIENCIA_VALIDOS"
    by (simp add: n d' dget_def)
  from c show "dget (se_realizo (normalizada d)) = Texto (tx ''SI'')
         \<or> dget (se_realizo (normalizada d)) = Texto (tx ''NO'')"
    by (auto simp: n d' dget_def)
  show "motivos (normalizada d) = motivos d" "observaciones (normalizada d) = observaciones d"
    "radicado (normalizada d) = radicado d" "fecha (normalizada d) = fecha d"
    "hora (normalizada d) = hora d" "juzgado (normalizada d) = juzgado d"
    by (simp_all add: n d')
  from p show "parse_fecha_hora (normalizada d) = Inr (instante (normalizada d))"
    by (simp add: n instante_def)
qed

section \<open>The sheet that is written\<close>

lemma escribir_hoja_cabe:
  assumes "FILA_ENCABEZADO + length ds + 1 + 1 < MAX_FILA_PERMITIDA"
  shows "\<exists>ws'. escribir_hoja ws ds = Inr ws'"
  using assms by (auto simp: escribir_hoja_def Let_def)

lemma celda_escribir_totales_motivos:
  "celda (escribir_totales_motivos ws f conteo) r c =
     (if r = f \<and> COL_MOTIVOS_INICIO \<le> c \<and> c \<le> COL_MOTIVOS_FIN
      then recortar (Texto (motivos_nombres c @ tx '': '' @ str_nat (conteo c)))
      else celda ws r c)"
proof -
  have "celda (fold (\<lambda>col ws. ws_cell ws f col
                      (Texto (motivos_nombres col @ tx '': '' @ str_nat (conteo col)))) cols ws) r c
          = (if r = f \<and> c \<in> set cols
             then recortar (Texto (motivos_nombres c @ tx '': '' @ str_nat (conteo c)))
             else celda ws r c)"
    for cols
    by (induction cols arbitrary: ws) (auto simp: celda_ws_cell)
  then show ?thesis
    by (auto simp: escribir_totales_motivos_def)
qed

lemma celda_escribir_hoja_datos:
  assumes "escribir_hoja ws ds = Inr ws'"
    and "FILA_ENCABEZADO + 1 \<le> r" and "r < FILA_ENCABEZADO + 1 + length ds"
  shows "celda ws' r c =
           valor_escrito (escrituras_fila (r - FILA_ENCABEZADO) (ds ! (r - FILA_ENCABEZADO - 1)))
             c (celda ws r c)"
  using assms
  by (auto simp: escribir_hoja_def Let_def celda_escribir_totales_motivos celda_ws_cell
      celda_eliminar_totales_previos celda_escribir_datos split: if_splits)

lemma buscar_totales_vacio:
  "\<not> truthy (celda ws f 7) \<Longrightarrow> \<not> truthy (celda ws f 8) \<Longrightarrow> buscar_totales ws f = []"
  by (subst buscar_totales_paso) (simp add: es_fila_totales_def)

lemma celda_escribir_hoja_otras:
  assumes "escribir_hoja ws ds = Inr ws1" and "c < COL_REALIZADO_SI"
  shows "celda ws1 r c =
           celda (eliminar_totales_previos (escribir_datos ws 1 ds)
                    (FILA_ENCABEZADO + length ds + 1)) r c"
  using assms
  by (auto simp: escribir_hoja_def Let_def celda_escribir_totales_motivos celda_ws_cell
      columnas split: if_splits)

lemma celda_escribir_hoja_radicado_fin:
  assumes "escribir_hoja ws ds = Inr ws1"
    and "\<forall>c. celda ws (FILA_ENCABEZADO + length ds + 1) c = Vacio"
  shows "celda ws1 (FILA_ENCABEZADO + length ds + 1) COL_RADICADO = Vacio"
proof -
  let ?f = "FILA_ENCABEZADO + length ds + 1"
  have v: "celda (escribir_datos ws 1 ds) ?f c = Vacio" for c
    using assms(2) by (simp add: celda_escribir_datos)
  have "buscar_totales (escribir_datos ws 1 ds) ?f = []"
    using v [of 7] v [of 8] by (intro buscar_totales_vacio) simp_all
  then have e: "eliminar_totales_previos (escribir_datos ws 1 ds) ?f = escribir_datos ws 1 ds"
    by (simp add: eliminar_totales_previos_def)
  have "celda ws1 ?f COL_RADICADO
          = celda (eliminar_totales_previos (escribir_datos ws 1 ds) ?f) ?f COL_RADICADO"
    by (rule celda_escribir_hoja_otras [OF assms(1)]) (simp add: columnas)
  also have "\<dots> = celda (escribir_datos ws 1 ds) ?f COL_RADICADO"
    by (simp only: e)
  also have "\<dots> = Vacio" by (rule v)
  finally show ?thesis .
qed

section \<open>Values that the library accepts\<close>

lemma hoja_legal_delete_rows: "hoja_legal ws \<Longrightarrow> hoja_legal (delete_rows ws idx n)"
  by (auto simp: hoja_legal_def delete_rows_def list_all_iff)

lemma celda_legal: "hoja_legal ws \<Longrightarrow> valor_legal (celda ws r c)"
  by (auto simp: hoja_legal_def celda_def list_all_iff split: option.splits
      dest!: map_of_SomeD)

lemma hoja_legal_ws_cell:
  "hoja_legal ws \<Longrightarrow> valor_legal (recortar v) \<Longrightarrow> hoja_legal (ws_cell ws r c v)"
  using celda_legal [of ws r c] by (simp add: hoja_legal_def ws_cell_def)

lemma hoja_legal_escribir_celdas:
  "hoja_legal ws \<Longrightarrow> list_all (\<lambda>cv. valor_legal (recortar (snd cv))) es
     \<Longrightarrow> hoja_legal (escribir_celdas ws fila es)"
  unfolding escribir_celdas_def
  by (induction es arbitrary: ws) (simp_all add: hoja_legal_ws_cell)

lemma hoja_legal_copiar_estilos_fila:
  "hoja_legal ws \<Longrightarrow> hoja_legal (copiar_estilos_fila ws fo fd)"
proof -
  have "hoja_legal ws \<Longrightarrow>
          hoja_legal (fold (\<lambda>col ws. ws_cell (ws_cell ws fo col Vacio) fd col Vacio) cols ws)"
    for cols
    by (induction cols arbitrary: ws) (simp_all add: hoja_legal_ws_cell)
  then show "hoja_legal ws \<Longrightarrow> hoja_legal (copiar_estilos_fila ws fo fd)"
    by (simp add: copiar_estilos_fila_def)
qed

lemma X_legal [simp]: "\<not> list_ex ilegal (tx ''X'')"
  by code_simp

lemma escrituras_fila_legales:
  assumes "registro_legal d"
  shows "list_all (\<lambda>cv. valor_legal (recortar (snd cv))) (escrituras_fila idx d)"
  using assms
  by (simp add: escrituras_fila_lista registro_legal_def)

lemma hoja_legal_escribir_datos:
  "hoja_legal ws \<Longrightarrow> \<forall>d \<in> set ds. registro_legal d \<Longrightarrow> hoja_legal (escribir_datos ws idx ds)"
  by (induction ds arbitrary: ws idx)
    (simp_all add: escribir_fila_def Let_def hoja_legal_copiar_estilos_fila
      hoja_legal_escribir_celdas escrituras_fila_legales)

lemma hoja_legal_eliminar_totales_previos:
  "hoja_legal ws \<Longrightarrow> hoja_legal (eliminar_totales_previos ws f)"
proof -
  have "hoja_legal ws \<Longrightarrow> hoja_legal (fold (\<lambda>f ws. delete_rows ws f 1) fs ws)" for fs
    by (induction fs arbitrary: ws) (simp_all add: hoja_legal_delete_rows)
  then show "hoja_legal ws \<Longrightarrow> hoja_legal (eliminar_totales_previos ws f)"
    by (simp add: eliminar_totales_previos_def)
qed

lemma digitos_legales: "c \<in> set (digitos n) \<Longrightarrow> c \<in> set ''0123456789''"
proof (induction n arbitrary: c rule: digitos.induct)
  case (1 n)
  show ?case
  proof (cases "n < 10")
    case True
    with "1.prems" have "c = ''0123456789'' ! n"
      by (subst (asm) digitos.simps) simp
    moreover from True have "n < length ''0123456789''" by simp
    then have "''0123456789'' ! n \<in> set ''0123456789''" by (rule nth_mem)
    ultimately show ?thesis by simp
  next
    case False
    with "1.prems" have "c \<in> set (digitos (n div 10)) \<or> c = ''0123456789'' ! (n mod 10)"
      by (subst (asm) digitos.simps) auto
    then show ?thesis
    proof
      assume "c \<in> set (digitos (n div 10))"
      with False show ?thesis by (intro "1.IH") simp_all
    next
      have "n mod 10 < length ''0123456789''" by simp
      then have "''0123456789'' ! (n mod 10) \<in> set ''0123456789''" by (rule nth_mem)
      moreover assume "c = ''0123456789'' ! (n mod 10)"
      ultimately show ?thesis by simp
    qed
  qed
qed

lemma str_nat_legal: "\<not> list_ex ilegal (str_nat n)"
proof -
  have d: "list_all (\<lambda>c. \<not> ilegal (of_char c :: nat)) ''0123456789''"
    by code_simp
  have "\<not> ilegal (of_char c :: nat)" if "c \<in> set (digitos n)" for c
    using digitos_legales [OF that] d unfolding list_all_iff by blast
  then show ?thesis
    by (auto simp: str_nat_def tx_def list_ex_iff)
qed

lemma valor_legal_recortar: "valor_legal v \<Longrightarrow> valor_legal (recortar v)"
  by (cases v) (auto simp: recortar.simps(1) list_ex_iff dest: in_set_takeD)

lemma totales_legales:
  "valor_legal (recortar (Texto (tx ''TOTAL DE AUDIENCIAS REALIZADAS: '' @ str_nat n)))"
  "valor_legal (recortar (Texto (tx ''TOTAL DE AUDIENCIAS NO REALIZADAS: '' @ str_nat n)))"
proof -
  have "\<not> list_ex ilegal (tx ''TOTAL DE AUDIENCIAS REALIZADAS: '')"
    "\<not> list_ex ilegal (tx ''TOTAL DE AUDIENCIAS NO REALIZADAS: '')"
    by code_simp+
  then have a: "valor_legal (Texto (tx ''TOTAL DE AUDIENCIAS REALIZADAS: '' @ str_nat n))"
    and b: "valor_legal (Texto (tx ''TOTAL DE AUDIENCIAS NO REALIZADAS: '' @ str_nat n))"
    using str_nat_legal [of n] by (auto simp: list_ex_iff)
  from a show
    "valor_legal (recortar (Texto (tx ''TOTAL DE AUDIENCIAS REALIZADAS: '' @ str_nat n)))"
    by (rule valor_legal_recortar)
  from b show
    "valor_legal (recortar (Texto (tx ''TOTAL DE AUDIENCIAS NO REALIZADAS: '' @ str_nat n)))"
    by (rule valor_legal_recortar)
qed

lemma hoja_legal_escribir_totales_motivos:
  assumes "hoja_legal ws"
  shows "hoja_legal (escribir_totales_motivos ws f conteo)"
proof -
  have n: "list_all (\<lambda>c. \<not> list_ex ilegal (motivos_nombres c @ tx '': ''))
             [COL_MOTIVOS_INICIO..<COL_MOTIVOS_FIN + 1]"
    by code_simp
  have paso: "hoja_legal ws \<Longrightarrow> \<forall>c \<in> set cols. \<not> list_ex ilegal (motivos_nombres c @ tx '': '')
          \<Longrightarrow> hoja_legal (fold (\<lambda>col ws. ws_cell ws f col
                  (Texto (motivos_nombres col @ tx '': '' @ str_nat (conteo col)))) cols ws)"
    for cols ws
  proof (induction cols arbitrary: ws)
    case Nil
    then show ?case by simp
  next
    case (Cons c cols)
    from Cons.prems(2) str_nat_legal [of "conteo c"]
    have "valor_legal (Texto (motivos_nombres c @ tx '': '' @ str_nat (conteo c)))"
      by (auto simp: list_ex_iff)
    then have "valor_legal (recortar (Texto (motivos_nombres c @ tx '': '' @ str_nat (conteo c))))"
      by (rule valor_legal_recortar)
    with Cons show ?case
      by (simp add: hoja_legal_ws_cell)
  qed
  from n have "\<forall>c \<in> set [COL_MOTIVOS_INICIO..<COL_MOTIVOS_FIN + 1].
                 \<not> list_ex ilegal (motivos_nombres c @ tx '': '')"
    by (simp only: list_all_iff)
  from paso [OF assms this] show ?thesis
    by (simp only: escribir_totales_motivos_def)
qed

lemma hoja_legal_escribir_hoja:
  assumes "escribir_hoja ws ds = Inr ws1" and "hoja_legal ws"
    and "\<forall>d \<in> set ds. registro_legal d"
  shows "hoja_legal ws1"
proof -
  let ?ws2 = "eliminar_totales_previos (escribir_datos ws 1 ds) (FILA_ENCABEZADO + length ds + 1)"
  from assms(2,3) have "hoja_legal ?ws2"
    by (intro hoja_legal_eliminar_totales_previos hoja_legal_escribir_datos)
  then have "hoja_legal (escribir_totales_motivos
                 (ws_cell (ws_cell ?ws2 f COL_REALIZADO_SI
                     (Texto (tx ''TOTAL DE AUDIENCIAS REALIZADAS: '' @ str_nat a)))
                   f COL_REALIZADO_NO
                   (Texto (tx ''TOTAL DE AUDIENCIAS NO REALIZADAS: '' @ str_nat b))) g conteo)"
    for f g a b conteo
    by (intro hoja_legal_escribir_totales_motivos hoja_legal_ws_cell totales_legales)
  with assms(1) show ?thesis
    by (auto simp: escribir_hoja_def Let_def split: if_splits)
qed

lemma hoja_legal_borrar_datos_previos:
  "hoja_legal ws \<Longrightarrow> hoja_legal (borrar_datos_previos ws)"
  by (simp add: borrar_datos_previos_def Let_def hoja_legal_delete_rows)

lemma texto_llano_legal: "texto_llano v \<Longrightarrow> valor_legal (recortar v)"
  by (cases v) (auto simp: recortar.simps(1) list_ex_iff)

lemma tipos_legales: "t \<in> set TIPOS_AUDIENCIA_VALIDOS \<Longrightarrow> valor_legal (recortar (Texto t))"
proof -
  have "list_all (\<lambda>t. valor_legal (recortar (Texto t))) TIPOS_AUDIENCIA_VALIDOS"
    by code_simp
  then show "t \<in> set TIPOS_AUDIENCIA_VALIDOS \<Longrightarrow> valor_legal (recortar (Texto t))"
    by (simp add: list_all_iff)
qed

lemma texto_llano_motivo_en:
  assumes "list_all texto_llano (take 8 (motivos d))" and "i < 8"
  shows "texto_llano (motivo_en d i)"
proof (cases "i < length (motivos d)")
  case True
  with assms(2) have "take 8 (motivos d) ! i \<in> set (take 8 (motivos d))"
    by (intro nth_mem) simp
  with assms True show ?thesis
    by (simp add: motivo_en_def list_all_iff)
next
  case False
  then show ?thesis by (simp add: motivo_en_def)
qed

lemma registro_legal_normalizada:
  assumes "valida d" and "almacenable d"
  shows "registro_legal (normalizada d)"
proof -
  note v = valida_normalizada [OF assms(1)]
  from v(2) have "valor_legal (recortar (dget (tipo_audiencia (normalizada d))))"
    by (auto simp: tipos_legales)
  moreover from assms(2)
  have "valor_legal (recortar (dget_or (observaciones d) (Texto [])))"
    by (cases "observaciones d")
      (simp_all add: almacenable_def dget_def dget_or_def texto_llano_legal)
  moreover have "valor_legal (recortar (motivo_en (normalizada d) i))" if "i < 8" for i
  proof -
    from assms(2) that have "texto_llano (motivo_en d i)"
      by (intro texto_llano_motivo_en) (simp_all add: almacenable_def)
    moreover have "motivo_en (normalizada d) i = motivo_en d i"
      by (simp add: motivo_en_def v(4))
    ultimately show ?thesis
      by (simp add: texto_llano_legal)
  qed
  ultimately show ?thesis
    using assms(2)
    by (simp add: registro_legal_def v(5-9) almacenable_def texto_llano_legal)
qed

section \<open>Reading back what was saved\<close>

lemma saltos_vacio [simp]: "saltos s = [] \<longleftrightarrow> s = []"
  by (induction s rule: saltos.induct) auto

lemma truthy_guardado: "truthy v \<Longrightarrow> texto_llano v \<Longrightarrow> truthy (guardado v)"
  by (cases v) (auto simp: guardado_def recortar.simps(1))

lemma sobre_Vacio [simp]: "sobre v Vacio = recortar v"
  by (cases v) (simp_all add: sobre_def)

lemma saltos_X [simp]: "saltos (tx ''X'') = tx ''X''"
  by code_simp

lemma strip_X: "strip (tx ''X'') = tx ''X''"
  by code_simp

lemma tx_X [simp]: "tx ''X'' \<noteq> []"
  by (simp add: tx_def)

lemma upt_9_17: "[9..<17] = map (\<lambda>i. 9 + i) [0..<8]"
  by (simp add: upt_0_8 upt_rec)

lemma registro_de_fila_escrita:
  assumes h: "escribir_hoja ws ds = Inr ws1"
    and g: "wb_save ws1 = Inr guardada"
    and i: "i < length ds"
    and s: "dget (se_realizo (ds ! i)) = Texto (tx ''SI'')
            \<or> dget (se_realizo (ds ! i)) = Texto (tx ''NO'')"
    and v: "\<forall>c. celda ws (Suc (FILA_ENCABEZADO + i)) c = Vacio"
  shows "registro_de_fila guardada (Suc (FILA_ENCABEZADO + i)) = leida (ds ! i)"
    and "celda guardada (Suc (FILA_ENCABEZADO + i)) COL_RADICADO
           = guardado (dget (radicado (ds ! i)))"
proof -
  let ?r = "Suc (FILA_ENCABEZADO + i)"
  have c: "celda guardada ?r c
             = serializar (valor_escrito (escrituras_fila (Suc i) (ds ! i)) c Vacio)" for c
    using celda_escribir_hoja_datos [OF h, of ?r c] i v by (simp add: celda_wb_save [OF g])
  have cm: "o_vacio (celda guardada ?r (9 + j)) = o_vacio (guardado (motivo_en (ds ! i) j))"
    if "j < 8" for j
    using that by (simp add: c valor_escrito_motivo guardado_def)
  have "map (\<lambda>col. o_vacio (celda guardada ?r col)) [9..<17]
          = map (\<lambda>j. o_vacio (celda guardada ?r (9 + j))) [0..<8]"
    by (simp only: upt_9_17 map_map o_def)
  also have "\<dots> = map (\<lambda>j. o_vacio (guardado (motivo_en (ds ! i) j))) [0..<8]"
    by (rule map_cong) (simp_all add: cm)
  finally have m: "map (\<lambda>col. o_vacio (celda guardada ?r col))
                     [COL_MOTIVOS_INICIO..<COL_MOTIVOS_FIN + 1]
                   = map (\<lambda>j. o_vacio (guardado (motivo_en (ds ! i) j))) [0..<8]"
    by (simp add: columnas)
  from s show "registro_de_fila guardada ?r = leida (ds ! i)"
    unfolding registro_de_fila_def leida_def Let_def m
    by (auto simp: columnas c guardado_def strip_X)
  show "celda guardada ?r COL_RADICADO = guardado (dget (radicado (ds ! i)))"
    by (simp add: columnas c guardado_def)
qed

text \<open>
  Claim C1, as amended. For a list of valid records that fits under the ceiling, whose
  case number, date, time, court, notes and first eight reasons are strings of characters
  that the library and the file format accept, saved to a ledger that is well formed, can
  be opened and has no cell at or beyond row 300, \<^verbatim>\<open>guardar_audiencias_excel\<close> succeeds
  and the reading loop on the stored sheet returns the records in the order of the rows,
  each as it is stored (\<open>leida\<close> of the normalised record); as a set this is the image
  of the input, whatever its order.
\<close>

theorem leer_tras_guardar:
  assumes "validar_no_es_plantilla s n = Inr ()"
    and "load_workbook s (ruta_de n) = Some (Some ws0)"
    and "hoja_legal ws0"
    and "max_row ws0 < MAX_FILA_PERMITIDA"
    and "\<forall>d \<in> set datos. valida d"
    and "\<forall>d \<in> set datos. almacenable d"
    and "FILA_ENCABEZADO + length datos + 1 + 1 < MAX_FILA_PERMITIDA"
  shows "\<exists>s' ws'.
           guardar_audiencias_excel datos n s = (Inr (), s')
           \<and> load_workbook s' (ruta_de n) = Some (Some ws')
           \<and> leer_audiencias ws' = map leida (ordenadas (map normalizada datos))
           \<and> set (leer_audiencias ws') = (\<lambda>d. leida (normalizada d)) ` set datos"
proof -
  let ?rs = "ordenadas (map normalizada datos)"
  let ?ws = "borrar_datos_previos ws0"
  from assms(7) obtain ws1 where h: "escribir_hoja ?ws ?rs = Inr ws1"
    using escribir_hoja_cabe [of ?rs ?ws] by auto
  from assms(5,6) have "\<forall>d \<in> set ?rs. registro_legal d"
    by (auto simp: registro_legal_normalizada)
  with h assms(3) have "hoja_legal ws1"
    by (intro hoja_legal_escribir_hoja [OF h] hoja_legal_borrar_datos_previos)
  then obtain guardada where w: "wb_save ws1 = Inr guardada"
    by (simp add: wb_save_legal)
  let ?s' = "escribir_fichero s (ruta_de n) (Some guardada)"
  from h w assms(1,2,5) have g: "guardar_audiencias_excel datos n s = (Inr (), ?s')"
    by (simp add: guardar_validas)
  have l: "load_workbook ?s' (ruta_de n) = Some (Some guardada)"
    by (simp add: load_escribir_fichero)
  have limpia: "celda ?ws r c = Vacio" if "FILA_ENCABEZADO < r" for r c
    using that by (rule celda_borrar_datos_previos [OF assms(4)])
  have reg: "registro_de_fila guardada (Suc (FILA_ENCABEZADO + i)) = leida (?rs ! i)"
    and rad: "truthy (celda guardada (Suc (FILA_ENCABEZADO + i)) COL_RADICADO)"
    if i: "i < length datos" for i
  proof -
    from i have "?rs ! i \<in> set ?rs" by (intro nth_mem) simp
    then obtain d where d: "d \<in> set datos" "?rs ! i = normalizada d" by auto
    with assms(5,6) have v: "valida d" and a: "almacenable d" by simp_all
    note n = valida_normalizada [OF v]
    from n(3) have s: "dget (se_realizo (?rs ! i)) = Texto (tx ''SI'')
                       \<or> dget (se_realizo (?rs ! i)) = Texto (tx ''NO'')"
      by (simp add: d(2))
    from i have i': "i < length ?rs" by simp
    have vacia: "\<forall>c. celda ?ws (Suc (FILA_ENCABEZADO + i)) c = Vacio"
      by (simp add: limpia)
    from registro_de_fila_escrita(1) [OF h w i' s vacia]
    show "registro_de_fila guardada (Suc (FILA_ENCABEZADO + i)) = leida (?rs ! i)" .
    from a have "texto_llano (dget (radicado d))" by (simp add: almacenable_def)
    with n(1) have "truthy (guardado (dget (radicado d)))" by (rule truthy_guardado)
    with registro_de_fila_escrita(2) [OF h w i' s vacia]
    show "truthy (celda guardada (Suc (FILA_ENCABEZADO + i)) COL_RADICADO)"
      by (simp add: d(2) n(6))
  qed
  have "celda ws1 (FILA_ENCABEZADO + length ?rs + 1) COL_RADICADO = Vacio"
    by (rule celda_escribir_hoja_radicado_fin [OF h]) (simp add: limpia)
  then have fin: "\<not> truthy (celda guardada (FILA_ENCABEZADO + 1 + length datos) COL_RADICADO)"
    by (simp add: celda_wb_save [OF w])
  have "leer_audiencias guardada
          = map (registro_de_fila guardada)
              [FILA_ENCABEZADO + 1..<FILA_ENCABEZADO + 1 + length datos]"
    unfolding leer_audiencias_def
  proof (rule leer_desde_rango [OF _ fin])
    show "\<forall>r. FILA_ENCABEZADO + 1 \<le> r \<and> r < FILA_ENCABEZADO + 1 + length datos
               \<longrightarrow> truthy (celda guardada r COL_RADICADO)"
    proof (intro allI impI)
      fix r
      assume r: "FILA_ENCABEZADO + 1 \<le> r \<and> r < FILA_ENCABEZADO + 1 + length datos"
      then have "r = Suc (FILA_ENCABEZADO + (r - FILA_ENCABEZADO - 1))"
        "r - FILA_ENCABEZADO - 1 < length datos"
        by arith+
      with rad [of "r - FILA_ENCABEZADO - 1"]
      show "truthy (celda guardada r COL_RADICADO)" by simp
    qed
  qed simp
  also have "[FILA_ENCABEZADO + 1..<FILA_ENCABEZADO + 1 + length datos]
               = map (\<lambda>i. Suc (FILA_ENCABEZADO + i)) [0..<length datos]"
    by (rule nth_equalityI) (simp_all del: upt_Suc)
  also have "map (registro_de_fila guardada) (map (\<lambda>i. Suc (FILA_ENCABEZADO + i)) [0..<length datos])
               = map (\<lambda>i. leida (?rs ! i)) [0..<length datos]"
    by (simp add: reg)
  also have "\<dots> = map leida (map (\<lambda>i. ?rs ! i) [0..<length ?rs])"
    by simp
  also have "\<dots> = map leida ?rs"
    by (simp only: map_nth)
  finally have r: "leer_audiencias guardada = map leida ?rs" .
  have "set (map leida ?rs) = (\<lambda>d. leida (normalizada d)) ` set datos"
    by (simp add: image_image)
  with g l r show ?thesis
    by (intro exI [of _ ?s'] exI [of _ guardada]) simp
qed

lemma validas_ejemplo: "\<forall>d \<in> set datos_ejemplo. valida d"
  by code_simp

lemma almacenables_ejemplo: "\<forall>d \<in> set datos_ejemplo. almacenable d"
  by code_simp

lemma caben_ejemplo: "FILA_ENCABEZADO + length datos_ejemplo + 1 + 1 < MAX_FILA_PERMITIDA"
  by code_simp

lemma hoja_ejemplo: "hoja_legal []" "max_row [] < MAX_FILA_PERMITIDA"
  by code_simp+

theorem leer_tras_guardar_witness:
  "\<exists>s' ws'.
     guardar_audiencias_excel datos_ejemplo ''test.xlsx'' sistema_ejemplo = (Inr (), s')
     \<and> load_workbook s' (ruta_de ''test.xlsx'') = Some (Some ws')
     \<and> leer_audiencias ws' =
         [leida (normalizada audiencia_con_blancos), leida (normalizada audiencia_ejemplo),
          leida (normalizada audiencia_tercera)]"
proof -
  have o: "map leida (ordenadas (map normalizada datos_ejemplo)) =
             [leida (normalizada audiencia_con_blancos), leida (normalizada audiencia_ejemplo),
              leida (normalizada audiencia_tercera)]"
    by code_simp
  from leer_tras_guardar
    [OF plantilla_ejemplo load_ejemplo hoja_ejemplo validas_ejemplo almacenables_ejemplo
      caben_ejemplo]
  obtain s' ws' where
    "guardar_audiencias_excel datos_ejemplo ''test.xlsx'' sistema_ejemplo = (Inr (), s')"
    "load_workbook s' (ruta_de ''test.xlsx'') = Some (Some ws')"
    "leer_audiencias ws' = map leida (ordenadas (map normalizada datos_ejemplo))"
    by blast
  then show ?thesis
    unfolding o by (intro exI [of _ s'] exI [of _ ws'] conjI)
qed

text \<open>
  Claim C1 as it is written fails, and each condition of the amended claim is needed.
  A record that the validator leaves unchanged, with one reason, is read back with
  eight reason slots, so what is read is not what was written. A label and a flag with
  blanks around them are read back without them, the flag in upper case, and absent notes
  as \<^verbatim>\<open>None\<close>. A carriage return is read back as a line feed. A control character
  makes the call fail. The integer \<open>2^53 + 1\<close> is read back as \<open>2^53\<close>. A list of 288
  valid records does not fit, and nothing is saved. On a ledger with a case number in
  row 301 the reading loop returns two records after one was saved.
\<close>

theorem leer_tras_guardar_counterexample:
  "(validar_campos_audiencia audiencia_canonica = Inr audiencia_canonica
    \<and> fst (guardar_audiencias_excel [audiencia_canonica] ''test.xlsx'' sistema_ejemplo) = Inr ()
    \<and> map motivos (leer_audiencias hoja_con_canonica) =
        [[Texto (tx ''Acuerdo''), Texto [], Texto [], Texto [], Texto [], Texto [], Texto [],
          Texto []]]
    \<and> set (leer_audiencias hoja_con_canonica) \<noteq> set [audiencia_canonica])
   \<and> (valida audiencia_con_blancos
      \<and> map (\<lambda>a. (tipo_audiencia a, se_realizo a, observaciones a))
           (leer_audiencias (hoja_de (snd (guardar_audiencias_excel [audiencia_con_blancos]
                                              ''test.xlsx'' sistema_ejemplo))))
         = [(Some (Texto (tx ''Otra'')), Some (Texto (tx ''NO'')), Some Vacio)])
   \<and> (valida audiencia_con_retorno
      \<and> map juzgado
           (leer_audiencias (hoja_de (snd (guardar_audiencias_excel [audiencia_con_retorno]
                                              ''test.xlsx'' sistema_ejemplo))))
         = [Some (Texto [0x61, 0x0A, 0x62])])
   \<and> (valida audiencia_con_control
      \<and> fst (guardar_audiencias_excel [audiencia_con_control] ''test.xlsx'' sistema_ejemplo)
         = Inl CaracterIlegal
      \<and> hoja_de (snd (guardar_audiencias_excel [audiencia_con_control] ''test.xlsx''
                        sistema_ejemplo)) = [])
   \<and> (valida audiencia_con_entero
      \<and> map radicado
           (leer_audiencias (hoja_de (snd (guardar_audiencias_excel [audiencia_con_entero]
                                              ''test.xlsx'' sistema_ejemplo))))
         = [Some (Entero 9007199254740992)])
   \<and> (valida audiencia_canonica
      \<and> guardar_audiencias_excel (replicate 288 audiencia_canonica) ''test.xlsx'' sistema_ejemplo
         = (Inl SinEspacioMotivos, sistema_ejemplo))
   \<and> (fst (guardar_audiencias_excel [audiencia_canonica] ''test.xlsx''
              (sistema_con hoja_con_fila_301)) = Inr ()
      \<and> map (\<lambda>a. dget (radicado a))
           (leer_audiencias (hoja_de (snd (guardar_audiencias_excel [audiencia_canonica]
                                              ''test.xlsx'' (sistema_con hoja_con_fila_301)))))
         = [Texto (tx ''12345-ABC''), Texto (tx ''viejo'')])"
proof -
  have a: "validar_campos_audiencia audiencia_canonica = Inr audiencia_canonica
    \<and> fst (guardar_audiencias_excel [audiencia_canonica] ''test.xlsx'' sistema_ejemplo) = Inr ()
    \<and> map motivos (leer_audiencias hoja_con_canonica) =
        [[Texto (tx ''Acuerdo''), Texto [], Texto [], Texto [], Texto [], Texto [], Texto [],
          Texto []]]
    \<and> set (leer_audiencias hoja_con_canonica) \<noteq> set [audiencia_canonica]"
    by code_simp
  have b: "valida audiencia_con_blancos
      \<and> map (\<lambda>a. (tipo_audiencia a, se_realizo a, observaciones a))
           (leer_audiencias (hoja_de (snd (guardar_audiencias_excel [audiencia_con_blancos]
                                              ''test.xlsx'' sistema_ejemplo))))
         = [(Some (Texto (tx ''Otra'')), Some (Texto (tx ''NO'')), Some Vacio)]"
    by code_simp
  have c: "valida audiencia_con_retorno
      \<and> map juzgado
           (leer_audiencias (hoja_de (snd (guardar_audiencias_excel [audiencia_con_retorno]
                                              ''test.xlsx'' sistema_ejemplo))))
         = [Some (Texto [0x61, 0x0A, 0x62])]"
    by code_simp
  have d: "valida audiencia_con_control
      \<and> fst (guardar_audiencias_excel [audiencia_con_control] ''test.xlsx'' sistema_ejemplo)
         = Inl CaracterIlegal
      \<and> hoja_de (snd (guardar_audiencias_excel [audiencia_con_control] ''test.xlsx''
                        sistema_ejemplo)) = []"
    by code_simp
  have e: "valida audiencia_con_entero
      \<and> map radicado
           (leer_audiencias (hoja_de (snd (guardar_audiencias_excel [audiencia_con_entero]
                                              ''test.xlsx'' sistema_ejemplo))))
         = [Some (Entero 9007199254740992)]"
    by code_simp
  have v: "valida audiencia_canonica"
    by code_simp
  have "MAX_FILA_PERMITIDA
          \<le> FILA_ENCABEZADO
              + length (ordenadas (map normalizada (replicate 288 audiencia_canonica))) + 1 + 1"
    by (simp add: MAX_FILA_PERMITIDA_def FILA_ENCABEZADO_def)
  from escribir_hoja_capacidad [OF this, of "borrar_datos_previos []"]
  have "escribir_hoja (borrar_datos_previos [])
          (ordenadas (map normalizada (replicate 288 audiencia_canonica)))
        = Inl SinEspacioMotivos"
    by (simp add: MAX_FILA_PERMITIDA_def FILA_ENCABEZADO_def)
  moreover from v have "\<forall>d \<in> set (replicate 288 audiencia_canonica). valida d"
    by simp
  ultimately
  have f: "guardar_audiencias_excel (replicate 288 audiencia_canonica) ''test.xlsx'' sistema_ejemplo
         = (Inl SinEspacioMotivos, sistema_ejemplo)"
    by (simp add: guardar_validas [OF plantilla_ejemplo load_ejemplo])
  have g: "fst (guardar_audiencias_excel [audiencia_canonica] ''test.xlsx''
              (sistema_con hoja_con_fila_301)) = Inr ()
      \<and> map (\<lambda>a. dget (radicado a))
           (leer_audiencias (hoja_de (snd (guardar_audiencias_excel [audiencia_canonica]
                                              ''test.xlsx'' (sistema_con hoja_con_fila_301)))))
         = [Texto (tx ''12345-ABC''), Texto (tx ''viejo'')]"
    by code_simp
  from a b c d e v f g show ?thesis
    by (intro conjI) blast+
qed

section \<open>Rows at the ceiling and beyond it\<close>

text \<open>
  Claim C7 does not hold of the code. On a ledger with a cell in row 300, the first step
  deletes the rows 11 to 299 with \<^verbatim>\<open>ws.delete_rows\<close>, which moves row 300 up to row 11:
  after saving the empty list the signature line stands in row 11, and after saving one
  record it is overwritten by the data row. In both cases row 300 of the stored sheet is
  empty.
\<close>

theorem guardar_audiencias_excel_mueve_fila_300:
  "load_workbook sistema_con_fila_300 (ruta_de ''test.xlsx'') = Some (Some hoja_con_fila_300)
   \<and> celda hoja_con_fila_300 MAX_FILA_PERMITIDA 1 = Texto FIRMA
   \<and> fst (guardar_audiencias_excel [] ''test.xlsx'' sistema_con_fila_300) = Inr ()
   \<and> (case load_workbook (snd (guardar_audiencias_excel [] ''test.xlsx'' sistema_con_fila_300))
              (ruta_de ''test.xlsx'') of
         Some (Some ws) \<Rightarrow>
           celda ws MAX_FILA_PERMITIDA 1 = Vacio \<and> celda ws (FILA_ENCABEZADO + 1) 1 = Texto FIRMA
       | _ \<Rightarrow> False)
   \<and> fst (guardar_audiencias_excel [audiencia_ejemplo] ''test.xlsx'' sistema_con_fila_300) = Inr ()
   \<and> (case load_workbook
              (snd (guardar_audiencias_excel [audiencia_ejemplo] ''test.xlsx'' sistema_con_fila_300))
              (ruta_de ''test.xlsx'') of
         Some (Some ws) \<Rightarrow>
           celda ws MAX_FILA_PERMITIDA 1 = Vacio
           \<and> celda ws (FILA_ENCABEZADO + 1) 1 = Entero 1
           \<and> list_all (\<lambda>kv. celda ws (fst (fst kv)) (snd (fst kv)) \<noteq> Texto FIRMA) ws
       | _ \<Rightarrow> False)"
  by code_simp

text \<open>
  Claim C2 does not hold of the code, by the same defect. On a ledger with three rows at
  the ceiling and below it, of the years 2030, 2031 and 2032, the first step moves them
  up to the rows 11, 12 and 13. Saving the record of the scenario, of the year 2024,
  overwrites row 11 and leaves the other two under it: the data rows of the stored sheet,
  as the reading loop returns them, are of the years 2024, 2031 and 2032, which is not a
  non-increasing order.
\<close>

theorem guardar_audiencias_excel_filas_viejas:
  "valida audiencia_ejemplo
   \<and> map (\<lambda>f. (celda hoja_con_filas_viejas f COL_RADICADO, celda hoja_con_filas_viejas f COL_FECHA))
         [300, 301, 302]
       = [(Texto (tx ''A''), Texto (tx ''01/01/2030'')), (Texto (tx ''B''), Texto (tx ''01/01/2031'')),
          (Texto (tx ''C''), Texto (tx ''01/01/2032''))]
   \<and> fst (guardar_audiencias_excel [audiencia_ejemplo] ''test.xlsx''
             (sistema_con hoja_con_filas_viejas)) = Inr ()
   \<and> map (\<lambda>a. dget (radicado a))
         (leer_audiencias (hoja_de (snd (guardar_audiencias_excel [audiencia_ejemplo] ''test.xlsx''
                                           (sistema_con hoja_con_filas_viejas)))))
       = [Texto (tx ''12345-ABC''), Texto (tx ''B''), Texto (tx ''C'')]
   \<and> map instante
         (leer_audiencias (hoja_de (snd (guardar_audiencias_excel [audiencia_ejemplo] ''test.xlsx''
                                           (sistema_con hoja_con_filas_viejas)))))
       = [(2024, 7, 25, 10, 0), (2031, 1, 1, 10, 0), (2032, 1, 1, 10, 0)]
   \<and> \<not> sorted_wrt (\<lambda>a b. b \<le> a)
         (map instante
            (leer_audiencias (hoja_de (snd (guardar_audiencias_excel [audiencia_ejemplo]
                                              ''test.xlsx'' (sistema_con hoja_con_filas_viejas))))))"
  by code_simp

text \<open>
  Claim C3 does not hold of the code, by the same defect. On a ledger with a cell in the
  column of the first reason in row 300, the first step moves that cell up to row 11.
  Saving one record that was not held and whose only reason is \<^verbatim>\<open>None\<close> writes nothing
  to that cell, a write of \<^verbatim>\<open>None\<close> keeping the value of the cell, so the old value
  stays in the data row and the count that is read back from the sheet takes it for a
  reason: the total of the first reason reads 1, while no record has a reason there.
\<close>

theorem guardar_audiencias_excel_cuenta_motivo_viejo:
  "valida audiencia_sin_motivo
   \<and> dget (se_realizo (normalizada audiencia_sin_motivo)) = Texto (tx ''NO'')
   \<and> length (filter (\<lambda>d. dget (se_realizo (normalizada d)) = Texto (tx ''NO'')
                          \<and> 0 < length (motivos d) \<and> truthy (motivos d ! 0))
                [audiencia_sin_motivo]) = 0
   \<and> celda hoja_con_motivo_viejo MAX_FILA_PERMITIDA COL_MOTIVOS_INICIO = Texto (tx ''viejo'')
   \<and> fst (guardar_audiencias_excel [audiencia_sin_motivo] ''test.xlsx''
             (sistema_con hoja_con_motivo_viejo)) = Inr ()
   \<and> map (\<lambda>rc. celda (hoja_de (snd (guardar_audiencias_excel [audiencia_sin_motivo] ''test.xlsx''
                                        (sistema_con hoja_con_motivo_viejo))))
                  (fst rc) (snd rc))
         [(11, COL_RADICADO), (11, COL_REALIZADO_NO), (11, COL_MOTIVOS_INICIO),
          (12, COL_REALIZADO_SI), (12, COL_REALIZADO_NO), (13, COL_MOTIVOS_INICIO),
          (13, COL_MOTIVOS_INICIO + 1)]
       = [Texto (tx ''7''), Texto (tx ''X''), Texto (tx ''viejo''),
          Texto (tx ''TOTAL DE AUDIENCIAS REALIZADAS: 0''),
          Texto (tx ''TOTAL DE AUDIENCIAS NO REALIZADAS: 1''),
          Texto (tx ''Juez: 1''), Texto (tx ''Fiscal'' @ i_ac @ tx ''a: 0'')]"
  by code_simp

section \<open>The exported copy\<close>

text \<open>
  Claim C8 does not hold of the code. In a ledger written by
  \<^verbatim>\<open>guardar_audiencias_excel\<close> the row of the reason totals has nothing in the columns
  G and H, so the second loop of \<^verbatim>\<open>exportar_con_firma\<close> stops at the totals row and the
  signature goes to the row of the reason totals: in the copy its column A holds the
  signature and the merge has emptied its reason cells, while the totals row above is as
  in the source and the row below is empty.
\<close>

theorem exportar_con_firma_pisa_motivos:
  "load_workbook sistema_con_una (ruta_de ''test.xlsx'') = Some (Some hoja_con_una)
   \<and> map (celda hoja_con_una 13) [1, 9, 10, 16]
       = [Vacio, Texto (tx ''Juez: 0''), Texto (tx ''Fiscal'' @ i_ac @ tx ''a: 0''),
          Texto (tx ''Defensor P'' @ u_ac @ tx ''blico: 0'')]
   \<and> fst (exportar_con_firma ''test'' (2024, 7, 25) sistema_con_una)
       = Inr ''archivos/test_exportado_20240725.xlsx''
   \<and> (case load_workbook (snd (exportar_con_firma ''test'' (2024, 7, 25) sistema_con_una))
              ''archivos/test_exportado_20240725.xlsx'' of
         Some (Some ws) \<Rightarrow>
           map (celda ws 13) [1, 9, 10, 16] = [Texto FIRMA, Vacio, Vacio, Vacio]
           \<and> map (celda ws 12) [7, 8] = map (celda hoja_con_una 12) [7, 8]
           \<and> celda ws 14 1 = Vacio
       | _ \<Rightarrow> False)"
  by code_simp

end
